theory Spec2Isabelle
  imports Main "HOL-Library.Word"
begin

unbundle bit_operations_syntax

section \<open>Machine types\<close>

text \<open>
  The C types of the two source files. An \<open>int\<close> is a 32-bit word read with \<open>sint\<close>;
  \<open>u64\<close> (the clock, the load totals) is a 64-bit word; \<open>unsigned long\<close> is 64 bits on
  the LP64 targets of this kernel. \<open>struct rq\<close> is declared in \<open>sched.h\<close>, which is not
  among the sources: \<open>nr_running\<close> is given the type its \<open>printk\<close> format names
  (\<open>%lu\<close>, \<open>build_policy.c\<close> line 110), and \<open>nr_switches\<close> is the kernel's \<open>u64\<close>.
\<close>

type_synonym s32 = "32 word"
type_synonym u64 = "64 word"
type_synonym ulong = "64 word"

text \<open>The kernel's \<open>min\<close> and \<open>max\<close> macros at type \<open>int\<close>: \<open>x < y ? x : y\<close> and
  \<open>x > y ? x : y\<close>, the comparison signed.\<close>

definition min_int :: "s32 \<Rightarrow> s32 \<Rightarrow> s32" where
  "min_int x y = (if sint x < sint y then x else y)"

definition max_int :: "s32 \<Rightarrow> s32 \<Rightarrow> s32" where
  "max_int x y = (if sint x > sint y then x else y)"

section \<open>What the module reads from the kernel\<close>

record rq =
  nr_running :: ulong
  nr_switches :: u64

text \<open>
  One reading of the kernel by a function of the module: the scheduler clock, the mask
  of online processors (a bitmap, bit \<open>c\<close> set when processor \<open>c\<close> is online; its length
  is \<open>NR_CPUS\<close>), the run queue of each processor, the processor the caller runs on, and
  the two counters of \<open>ext.c\<close> the statistics file prints, and what \<open>save_gov_str\<close>
  walks: the mask of present processors and, for each processor, the processor its
  frequency policy names (\<open>cpufreq_cpu_get(cpu)->cpu\<close>), \<open>None\<close> when the processor has
  no policy and \<open>cpufreq_cpu_get\<close> returns \<open>NULL\<close>.
\<close>

record kernel_env =
  sched_clock :: u64
  cpu_online_mask :: "bool list"
  cpu_rq :: "nat \<Rightarrow> rq"
  smp_processor_id :: nat
  scx_exit_type :: s32
  scx_nr_rejected :: u64
  cpu_present_mask :: "bool list"
  cpufreq_cpu_get :: "nat \<Rightarrow> nat option"

definition NR_CPUS :: "kernel_env \<Rightarrow> nat" where
  "NR_CPUS env = length (cpu_online_mask env)"

text \<open>\<open>for_each_online_cpu(cpu)\<close>: the set bits of the mask, in increasing order.\<close>

definition for_each_online_cpu :: "kernel_env \<Rightarrow> nat list" where
  "for_each_online_cpu env =
     filter (\<lambda>cpu. cpu_online_mask env ! cpu) [0..<length (cpu_online_mask env)]"

text \<open>\<open>num_online_cpus()\<close>: the weight of the mask, an \<open>unsigned int\<close>; both callers
  store it in an \<open>int\<close>.\<close>

definition num_online_cpus :: "kernel_env \<Rightarrow> s32" where
  "num_online_cpus env = of_nat (length (for_each_online_cpu env))"

section \<open>The module's variables\<close>

text \<open>
  The \<open>int\<close>-sized globals of the compilation unit (\<open>build_policy.c\<close> includes
  \<open>hmbird_sched_proc_main.c\<close>). A \<open>cell\<close> is the address of one of them: the \<open>/proc\<close>
  write handlers store through an \<open>int *\<close> taken from the entry they serve.
\<close>

datatype cell =
    Scx_enable | Partial_enable | Cpuctrl_high_ratio | Cpuctrl_low_ratio | Slim_stats
  | Hmbirdcore_debug | Slim_for_app | Misfit_ds | Highres_tick_ctrl | Highres_tick_ctrl_dbg
  | Cpu7_tl | Slim_walt_ctrl | Slim_walt_dump | Slim_walt_policy | Slim_gov_debug
  | Scx_gov_ctrl | Sched_ravg_window_frame_per_sec | Parctrl_high_ratio | Parctrl_low_ratio
  | Parctrl_high_ratio_l | Parctrl_low_ratio_l | Isoctrl_high_ratio | Isoctrl_low_ratio
  | Isolate_ctrl | Iso_free_rescue | Heartbeat | Heartbeat_enable | Watchdog_enable
  | Save_gov | Cpu_cluster_masks | Cpu_performance_threshold | Load_balance_interval

record module_state =
  mem :: "cell \<Rightarrow> s32"
  policy_optimization_enabled :: bool
  last_optimization_time :: u64

text \<open>The static initialisers of both files; a global without one starts at zero.\<close>

definition initial_mem :: "cell \<Rightarrow> s32" where
  "initial_mem c =
     (case c of
        Cpuctrl_high_ratio \<Rightarrow> 55 | Cpuctrl_low_ratio \<Rightarrow> 40 | Misfit_ds \<Rightarrow> 90
      | Cpu7_tl \<Rightarrow> 70 | Scx_gov_ctrl \<Rightarrow> 1 | Sched_ravg_window_frame_per_sec \<Rightarrow> 125
      | Parctrl_high_ratio \<Rightarrow> 55 | Parctrl_low_ratio \<Rightarrow> 40
      | Parctrl_high_ratio_l \<Rightarrow> 65 | Parctrl_low_ratio_l \<Rightarrow> 50
      | Isoctrl_high_ratio \<Rightarrow> 75 | Isoctrl_low_ratio \<Rightarrow> 60
      | Cpu_performance_threshold \<Rightarrow> 80 | Load_balance_interval \<Rightarrow> 100
      | _ \<Rightarrow> 0)"

definition initial_state :: module_state where
  "initial_state =
     \<lparr>mem = initial_mem, policy_optimization_enabled = True, last_optimization_time = 0\<rparr>"

abbreviation cpu_performance_threshold :: "module_state \<Rightarrow> s32" where
  "cpu_performance_threshold s \<equiv> mem s Cpu_performance_threshold"

abbreviation load_balance_interval :: "module_state \<Rightarrow> s32" where
  "load_balance_interval s \<equiv> mem s Load_balance_interval"

definition store :: "cell \<Rightarrow> s32 \<Rightarrow> module_state \<Rightarrow> module_state" where
  "store p v s = s\<lparr>mem := (mem s)(p := v)\<rparr>"

section \<open>What the module does to the kernel\<close>

text \<open>The calls with an effect outside the module, in the order they are made: each
  \<open>printk\<close> with its arguments, the cross-processor call of the rebalance fan-out, and
  the registration of the hotplug notifier.\<close>

datatype event =
    Printk_overloaded nat ulong
  | Printk_triggering
  | Smp_call_function_single nat
  | Printk_came_online nat ulong
  | Printk_going_offline nat
  | Printk_loading
  | Printk_system_info s32 u64
  | Register_cpu_notifier
  | Printk_register_failed s32
  | Printk_loaded
  | Printk_parameters s32 s32
  | Printk_unloading
  | Unregister_cpu_notifier
  | Printk_unloaded u64

section \<open>The optimizer: \<open>optimize_cpu_performance\<close>\<close>

text \<open>The gate of lines 96 to 98: \<open>current_time - last_optimization_time <
  load_balance_interval * 1000000ULL\<close>. The subtraction is in \<open>u64\<close>; the \<open>int\<close> interval
  is converted to \<open>unsigned long long\<close> (sign extended) before the product.\<close>

definition rate_limited :: "kernel_env \<Rightarrow> module_state \<Rightarrow> bool" where
  "rate_limited env s \<longleftrightarrow>
     sched_clock env - last_optimization_time s
       < (scast (load_balance_interval s) :: u64) * 1000000"

text \<open>The test of line 108, \<open>rq->nr_running > (online_cpus * 2)\<close>: the \<open>int\<close> product is
  converted to \<open>unsigned long\<close> and the comparison is unsigned.\<close>

definition cpu_overloaded :: "s32 \<Rightarrow> rq \<Rightarrow> bool" where
  "cpu_overloaded online_cpus r \<longleftrightarrow> (scast (online_cpus * 2) :: ulong) < nr_running r"

text \<open>One round of the loop of lines 103 to 113, on the locals \<open>total_load\<close> and
  \<open>need_rebalance\<close> and the messages printed so far.\<close>

definition collect_step ::
  "kernel_env \<Rightarrow> s32 \<Rightarrow> nat \<Rightarrow> u64 \<times> bool \<times> event list \<Rightarrow> u64 \<times> bool \<times> event list" where
  "collect_step env online_cpus cpu acc =
     (case acc of (total_load, need_rebalance, out) \<Rightarrow>
        (let r = cpu_rq env cpu;
             total_load' = total_load + nr_running r
         in if cpu_overloaded online_cpus r
            then (total_load', True, out @ [Printk_overloaded cpu (nr_running r)])
            else (total_load', need_rebalance, out)))"

definition collect_load :: "kernel_env \<Rightarrow> s32 \<Rightarrow> u64 \<times> bool \<times> event list" where
  "collect_load env online_cpus =
     fold (collect_step env online_cpus) (for_each_online_cpu env) (0, False, [])"

text \<open>The loop of lines 120 to 124: every online processor but the caller's.\<close>

definition kick_all_cpus :: "kernel_env \<Rightarrow> event list" where
  "kick_all_cpus env =
     map Smp_call_function_single
       (filter (\<lambda>cpu. cpu \<noteq> smp_processor_id env) (for_each_online_cpu env))"

text \<open>Lines 127 to 132. \<open>total_load\<close> is \<open>u64\<close>, so each \<open>int\<close> operand is converted to
  \<open>u64\<close>; the sums \<open>+ 5\<close> and \<open>- 5\<close> are \<open>int\<close> sums.\<close>

definition adjust_threshold :: "u64 \<Rightarrow> s32 \<Rightarrow> s32 \<Rightarrow> s32" where
  "adjust_threshold total_load online_cpus threshold =
     (if (scast (online_cpus * 3) :: u64) < total_load then min_int (threshold + 5) 95
      else if total_load < (scast online_cpus :: u64) then max_int (threshold - 5) 50
      else threshold)"

definition optimize_cpu_performance ::
  "kernel_env \<Rightarrow> module_state \<Rightarrow> module_state \<times> event list" where
  "optimize_cpu_performance env s =
     (let current_time = sched_clock env;
          online_cpus = num_online_cpus env
      in if rate_limited env s then (s, [])
         else
           (let s1 = s\<lparr>last_optimization_time := current_time\<rparr>
            in case collect_load env online_cpus of
                 (total_load, need_rebalance, out) \<Rightarrow>
                   (let out' =
                          (if need_rebalance \<and> policy_optimization_enabled s1
                           then out @ [Printk_triggering] @ kick_all_cpus env
                           else out)
                    in (store Cpu_performance_threshold
                          (adjust_threshold total_load online_cpus
                             (cpu_performance_threshold s1)) s1,
                        out'))))"

section \<open>The hotplug notifier: \<open>policy_cpu_callback\<close>\<close>



section \<open>Start and stop: \<open>build_policy_init\<close>, \<open>build_policy_exit\<close>\<close>

text \<open>Lines 180 to 190: the parameters by system size.\<close>

definition init_parameters :: "s32 \<Rightarrow> module_state \<Rightarrow> module_state" where
  "init_parameters online_cpus s =
     (if 8 \<le> sint online_cpus then
        store Load_balance_interval 50 (store Cpu_performance_threshold 85 s)
      else if 4 \<le> sint online_cpus then
        store Load_balance_interval 75 (store Cpu_performance_threshold 75 s)
      else
        store Load_balance_interval 100 (store Cpu_performance_threshold 70 s))"

text \<open>\<open>init_time\<close> is the clock reading of line 166 and \<open>ret\<close> what
  \<open>register_cpu_notifier\<close> returns; \<open>env\<close> is the kernel as the rest of the function
  reads it.\<close>

definition build_policy_init ::
  "u64 \<Rightarrow> s32 \<Rightarrow> kernel_env \<Rightarrow> module_state \<Rightarrow> s32 \<times> module_state \<times> event list" where
  "build_policy_init init_time ret env s =
     (let online_cpus = num_online_cpus env;
          out0 = [Printk_loading, Printk_system_info online_cpus init_time,
                  Register_cpu_notifier]
      in if ret \<noteq> 0 then (ret, s, out0 @ [Printk_register_failed ret])
         else
           (case optimize_cpu_performance env (init_parameters online_cpus s) of
              (s', out) \<Rightarrow>
                (0, s',
                 out0 @ out @
                 [Printk_loaded,
                  Printk_parameters (cpu_performance_threshold s')
                    (load_balance_interval s')])))"

definition build_policy_exit ::
  "u64 \<Rightarrow> kernel_env \<Rightarrow> module_state \<Rightarrow> module_state \<times> event list" where
  "build_policy_exit exit_time env s =
     (case optimize_cpu_performance env (s\<lparr>policy_optimization_enabled := False\<rparr>) of
        (s', out) \<Rightarrow>
          (s', [Printk_unloading, Unregister_cpu_notifier] @ out @ [Printk_unloaded exit_time]))"


section \<open>The \<open>/proc\<close> files: parsing a written value\<close>

definition EFAULT :: int where "EFAULT = 14"
definition EINVAL :: int where "EINVAL = 22"
definition ERANGE :: int where "ERANGE = 34"

text \<open>
  \<open>strstrip\<close>, \<open>kstrtoint\<close> and the character classes they use are the kernel's
  (\<open>lib/string_helpers\<close>, \<open>lib/kstrtox.c\<close>, \<open>lib/ctype.c\<close>), not among the sources; they
  are written here as the kernel has them. A string is the bytes before the
  terminating \<open>NUL\<close>; reading at its end gives \<open>NUL\<close>.
\<close>

definition isspace :: "char \<Rightarrow> bool" where
  "isspace c \<longleftrightarrow>
     (let n = (of_char c :: nat) in (9 \<le> n \<and> n \<le> 13) \<or> n = 32 \<or> n = 160)"

definition isxdigit :: "char \<Rightarrow> bool" where
  "isxdigit c \<longleftrightarrow>
     (let n = (of_char c :: nat)
      in (48 \<le> n \<and> n \<le> 57) \<or> (65 \<le> n \<and> n \<le> 70) \<or> (97 \<le> n \<and> n \<le> 102))"

text \<open>\<open>_tolower(c) == 'x'\<close>, that is \<open>(c | 0x20) == 'x'\<close>.\<close>

definition is_x :: "char \<Rightarrow> bool" where
  "is_x c \<longleftrightarrow> c = CHR ''x'' \<or> c = CHR ''X''"

definition char_at :: "string \<Rightarrow> nat \<Rightarrow> char" where
  "char_at s i = (if i < length s then s ! i else CHR 0x00)"

text \<open>\<open>strim\<close>: cut the white space at the end, then skip the white space in front.\<close>

definition strstrip :: "string \<Rightarrow> string" where
  "strstrip s = dropWhile isspace (rev (dropWhile isspace (rev s)))"

text \<open>The value of a digit in \<open>_parse_integer_limit\<close>: \<open>c - '0'\<close> for a decimal digit,
  \<open>(c | 0x20) - 'a' + 10\<close> for a letter up to \<open>f\<close>, otherwise the loop stops.\<close>

definition digit_val :: "char \<Rightarrow> nat option" where
  "digit_val c =
     (let n = (of_char c :: nat)
      in if 48 \<le> n \<and> n \<le> 57 then Some (n - 48)
         else if 97 \<le> n \<and> n \<le> 102 then Some (n - 97 + 10)
         else if 65 \<le> n \<and> n \<le> 70 then Some (n - 65 + 10)
         else None)"

text \<open>The loop of \<open>_parse_integer_limit\<close> on the locals \<open>res\<close>, \<open>rv\<close> (the digits
  consumed) and the overflow flag the C code keeps in bit 31 of \<open>rv\<close>.\<close>

fun parse_integer :: "nat \<Rightarrow> string \<Rightarrow> u64 \<Rightarrow> nat \<Rightarrow> bool \<Rightarrow> u64 \<times> nat \<times> bool" where
  "parse_integer base [] res rv ovf = (res, rv, ovf)"
| "parse_integer base (c # s) res rv ovf =
     (case digit_val c of
        None \<Rightarrow> (res, rv, ovf)
      | Some val \<Rightarrow>
          if val \<ge> base then (res, rv, ovf)
          else
            parse_integer base s (res * of_nat base + of_nat val) (rv + 1)
              (ovf \<or> (res AND push_bit 60 (- 1) \<noteq> 0
                       \<and> res > (- 1 - of_nat val) div of_nat base)))"

text \<open>\<open>_parse_integer_fixup_radix\<close>: the base to use and the string after a \<open>0x\<close>.\<close>

definition parse_integer_fixup_radix :: "string \<Rightarrow> nat \<Rightarrow> string \<times> nat" where
  "parse_integer_fixup_radix s base =
     (let base' =
            (if base = 0 then
               (if char_at s 0 = CHR ''0'' then
                  (if is_x (char_at s 1) \<and> isxdigit (char_at s 2) then 16 else 8)
                else 10)
             else base)
      in if base' = 16 \<and> char_at s 0 = CHR ''0'' \<and> is_x (char_at s 1)
         then (drop 2 s, base') else (s, base'))"

definition kstrtoull_inner :: "string \<Rightarrow> nat \<Rightarrow> int + u64" where
  "kstrtoull_inner s base =
     (case parse_integer_fixup_radix s base of
        (s', base') \<Rightarrow>
          (case parse_integer base' s' 0 0 False of
             (res, rv, ovf) \<Rightarrow>
               if ovf then Inl (- ERANGE)
               else if rv = 0 then Inl (- EINVAL)
               else
                 (let rest = drop rv s';
                      rest' = (if char_at rest 0 = CHR 0x0A then drop 1 rest else rest)
                  in if rest' \<noteq> [] then Inl (- EINVAL) else Inr res)))"

definition kstrtoull :: "string \<Rightarrow> nat \<Rightarrow> int + u64" where
  "kstrtoull s base =
     kstrtoull_inner (if char_at s 0 = CHR ''+'' then drop 1 s else s) base"

text \<open>\<open>kstrtoll\<close>; the \<open>long long\<close> result is kept as its 64 bits.\<close>

definition kstrtoll :: "string \<Rightarrow> nat \<Rightarrow> int + u64" where
  "kstrtoll s base =
     (if char_at s 0 = CHR ''-'' then
        (case kstrtoull_inner (drop 1 s) base of
           Inl rv \<Rightarrow> Inl rv
         | Inr tmp \<Rightarrow> if sint (- tmp) > 0 then Inl (- ERANGE) else Inr (- tmp))
      else
        (case kstrtoull s base of
           Inl rv \<Rightarrow> Inl rv
         | Inr tmp \<Rightarrow> if sint tmp < 0 then Inl (- ERANGE) else Inr tmp))"

text \<open>\<open>kstrtoint(s, base, res)\<close>: the return value and the content of \<open>*res\<close>
  afterwards, given its content before.\<close>

definition kstrtoint :: "string \<Rightarrow> nat \<Rightarrow> s32 \<Rightarrow> int \<times> s32" where
  "kstrtoint s base res =
     (case kstrtoll s base of
        Inl rv \<Rightarrow> (rv, res)
      | Inr tmp \<Rightarrow>
          if tmp \<noteq> scast (ucast tmp :: s32) then (- ERANGE, res)
          else (0, ucast tmp))"

text \<open>
  A write request: \<open>ubuf\<close> is the bytes that can be read at the caller's pointer and
  \<open>count\<close> the length the caller gives. \<open>copy_from_user\<close> succeeds when all \<open>count\<close>
  bytes can be read.
\<close>

definition copy_from_user :: "string \<Rightarrow> nat \<Rightarrow> string option" where
  "copy_from_user ubuf count = (if count \<le> length ubuf then Some (take count ubuf) else None)"

text \<open>The string in \<open>kbuf\<close>, a zeroed array of five bytes with \<open>count < 5\<close> bytes copied
  to its front: the bytes before the first \<open>NUL\<close>.\<close>

definition kbuf_string :: "string \<Rightarrow> string" where
  "kbuf_string bytes = takeWhile (\<lambda>c. c \<noteq> CHR 0x00) bytes"

datatype klog = Pr_err_copy_from_user | Pr_err_kstrtoint

type_synonym write_result = "int \<times> module_state \<times> klog list"

definition set_proc_buf_val :: "string \<Rightarrow> nat \<Rightarrow> cell \<Rightarrow> module_state \<Rightarrow> write_result" where
  "set_proc_buf_val ubuf count val s =
     (if count \<ge> 5 then (- EFAULT, s, [])
      else
        (case copy_from_user ubuf count of
           None \<Rightarrow> (- EFAULT, s, [Pr_err_copy_from_user])
         | Some bytes \<Rightarrow>
             (case kstrtoint (strstrip (kbuf_string bytes)) 0 (mem s val) of
                (err, v) \<Rightarrow>
                  if err < 0 then (- EFAULT, store val v s, [Pr_err_kstrtoint])
                  else (0, store val v s, []))))"

section \<open>The \<open>/proc\<close> files: the write handlers\<close>

definition hmbird_common_write :: "string \<Rightarrow> nat \<Rightarrow> cell \<Rightarrow> module_state \<Rightarrow> write_result" where
  "hmbird_common_write ubuf count pval s =
     (case set_proc_buf_val ubuf count pval s of
        (r, s', out) \<Rightarrow> if r \<noteq> 0 then (- EFAULT, s', out) else (int count, s', out))"

definition scx_enable_proc_write :: "string \<Rightarrow> nat \<Rightarrow> cell \<Rightarrow> module_state \<Rightarrow> write_result" where
  "scx_enable_proc_write ubuf count pval s =
     (case set_proc_buf_val ubuf count pval s of
        (r, s', out) \<Rightarrow> if r \<noteq> 0 then (- EFAULT, s', out) else (int count, s', out))"

definition sched_ravg_window_frame_per_sec_proc_write ::
  "string \<Rightarrow> nat \<Rightarrow> cell \<Rightarrow> module_state \<Rightarrow> write_result" where
  "sched_ravg_window_frame_per_sec_proc_write ubuf count pval s =
     (case set_proc_buf_val ubuf count pval s of
        (r, s', out) \<Rightarrow> if r \<noteq> 0 then (- EFAULT, s', out) else (int count, s', out))"

definition cpu_cluster_proc_write :: "string \<Rightarrow> nat \<Rightarrow> cell \<Rightarrow> module_state \<Rightarrow> write_result" where
  "cpu_cluster_proc_write ubuf count pval s =
     (case set_proc_buf_val ubuf count pval s of
        (r, s', out) \<Rightarrow> if r \<noteq> 0 then (- EFAULT, s', out) else (int count, s', out))"

definition slim_walt_ctrl_write :: "string \<Rightarrow> nat \<Rightarrow> cell \<Rightarrow> module_state \<Rightarrow> write_result" where
  "slim_walt_ctrl_write ubuf count pval s =
     (case set_proc_buf_val ubuf count pval s of
        (r, s', out) \<Rightarrow> if r \<noteq> 0 then (- EFAULT, s', out) else (int count, s', out))"

text \<open>\<open>for_each_present_cpu(cpu)\<close>, as \<open>for_each_online_cpu\<close> above.\<close>

definition for_each_present_cpu :: "kernel_env \<Rightarrow> nat list" where
  "for_each_present_cpu env =
     filter (\<lambda>cpu. cpu_present_mask env ! cpu) [0..<length (cpu_present_mask env)]"

text \<open>\<open>save_gov_str\<close> reads \<open>policy->cpu\<close> for every present processor and returns
  \<open>count\<close>; it neither reads the buffer nor stores. \<open>None\<close> is the \<open>NULL\<close> dereference
  when a present processor has no frequency policy.\<close>

definition save_gov_str :: "kernel_env \<Rightarrow> string \<Rightarrow> nat \<Rightarrow> module_state \<Rightarrow> write_result option" where
  "save_gov_str env ubuf count s =
     (if list_all (\<lambda>cpu. cpufreq_cpu_get env cpu \<noteq> None) (for_each_present_cpu env)
      then Some (int count, s, []) else None)"

section \<open>The \<open>/proc\<close> files: the entries of \<open>hmbird_proc_init\<close>\<close>

text \<open>The operation tables the \<open>HMBIRD_PROC_OPS\<close> lines declare.\<close>

datatype proc_ops =
    Hmbird_common_proc_ops | Scx_enable_proc_ops | Hmbird_stats_proc_ops
  | Sched_ravg_window_frame_per_sec_proc_ops | Save_gov_proc_ops
  | Cpu_cluster_masks_proc_ops | Slim_walt_ctrl_proc_ops

record proc_entry =
  entry_dir :: string
  entry_name :: string
  entry_ops :: proc_ops
  entry_data :: "cell option"

definition HMBIRD_SCHED_PROC_DIR :: string where "HMBIRD_SCHED_PROC_DIR = ''hmbird_sched''"
definition LOAD_TRACK_DIR :: string where "LOAD_TRACK_DIR = ''hmbird_sched/slim_walt''"
definition SLIM_FREQ_GOV_DIR :: string where "SLIM_FREQ_GOV_DIR = ''hmbird_sched/slim_freq_gov''"

definition entry_data_of :: "string \<Rightarrow> string \<Rightarrow> proc_ops \<Rightarrow> cell \<Rightarrow> proc_entry" where
  "entry_data_of dir name ops p =
     \<lparr>entry_dir = dir, entry_name = name, entry_ops = ops, entry_data = Some p\<rparr>"

text \<open>The entries created with \<open>HMBIRD_CREATE_PROC_ENTRY_DATA\<close>, in the order of the
  source: the named tunables.\<close>

definition tunable_entries :: "proc_entry list" where
  "tunable_entries =
     [entry_data_of HMBIRD_SCHED_PROC_DIR ''scx_enable'' Scx_enable_proc_ops Scx_enable,
      entry_data_of HMBIRD_SCHED_PROC_DIR ''partial_ctrl'' Hmbird_common_proc_ops Partial_enable,
      entry_data_of HMBIRD_SCHED_PROC_DIR ''cpuctrl_high'' Hmbird_common_proc_ops Cpuctrl_high_ratio,
      entry_data_of HMBIRD_SCHED_PROC_DIR ''cpuctrl_low'' Hmbird_common_proc_ops Cpuctrl_low_ratio,
      entry_data_of HMBIRD_SCHED_PROC_DIR ''slim_stats'' Hmbird_common_proc_ops Slim_stats,
      entry_data_of HMBIRD_SCHED_PROC_DIR ''hmbirdcore_debug'' Hmbird_common_proc_ops Hmbirdcore_debug,
      entry_data_of HMBIRD_SCHED_PROC_DIR ''slim_for_app'' Hmbird_common_proc_ops Slim_for_app,
      entry_data_of HMBIRD_SCHED_PROC_DIR ''misfit_ds'' Hmbird_common_proc_ops Misfit_ds,
      entry_data_of HMBIRD_SCHED_PROC_DIR ''scx_shadow_tick_enable'' Hmbird_common_proc_ops
        Highres_tick_ctrl,
      entry_data_of HMBIRD_SCHED_PROC_DIR ''highres_tick_ctrl_dbg'' Hmbird_common_proc_ops
        Highres_tick_ctrl_dbg,
      entry_data_of HMBIRD_SCHED_PROC_DIR ''cpu7_tl'' Hmbird_common_proc_ops Cpu7_tl,
      entry_data_of HMBIRD_SCHED_PROC_DIR ''cpu_cluster_masks'' Cpu_cluster_masks_proc_ops
        Cpu_cluster_masks,
      entry_data_of HMBIRD_SCHED_PROC_DIR ''save_gov'' Save_gov_proc_ops Save_gov,
      entry_data_of HMBIRD_SCHED_PROC_DIR ''heartbeat'' Hmbird_common_proc_ops Heartbeat,
      entry_data_of HMBIRD_SCHED_PROC_DIR ''heartbeat_enable'' Hmbird_common_proc_ops
        Heartbeat_enable,
      entry_data_of HMBIRD_SCHED_PROC_DIR ''watchdog_enable'' Hmbird_common_proc_ops
        Watchdog_enable,
      entry_data_of HMBIRD_SCHED_PROC_DIR ''isolate_ctrl'' Hmbird_common_proc_ops Isolate_ctrl,
      entry_data_of HMBIRD_SCHED_PROC_DIR ''parctrl_high_ratio'' Hmbird_common_proc_ops
        Parctrl_high_ratio,
      entry_data_of HMBIRD_SCHED_PROC_DIR ''parctrl_low_ratio'' Hmbird_common_proc_ops
        Parctrl_low_ratio,
      entry_data_of HMBIRD_SCHED_PROC_DIR ''isoctrl_high_ratio'' Hmbird_common_proc_ops
        Isoctrl_high_ratio,
      entry_data_of HMBIRD_SCHED_PROC_DIR ''isoctrl_low_ratio'' Hmbird_common_proc_ops
        Isoctrl_low_ratio,
      entry_data_of HMBIRD_SCHED_PROC_DIR ''iso_free_rescue'' Hmbird_common_proc_ops
        Iso_free_rescue,
      entry_data_of HMBIRD_SCHED_PROC_DIR ''parctrl_high_ratio_l'' Hmbird_common_proc_ops
        Parctrl_high_ratio_l,
      entry_data_of HMBIRD_SCHED_PROC_DIR ''parctrl_low_ratio_l'' Hmbird_common_proc_ops
        Parctrl_low_ratio_l,
      entry_data_of LOAD_TRACK_DIR ''slim_walt_ctrl'' Slim_walt_ctrl_proc_ops Slim_walt_ctrl,
      entry_data_of LOAD_TRACK_DIR ''slim_walt_dump'' Hmbird_common_proc_ops Slim_walt_dump,
      entry_data_of LOAD_TRACK_DIR ''slim_walt_policy'' Hmbird_common_proc_ops Slim_walt_policy,
      entry_data_of LOAD_TRACK_DIR ''frame_per_sec'' Sched_ravg_window_frame_per_sec_proc_ops
        Sched_ravg_window_frame_per_sec,
      entry_data_of SLIM_FREQ_GOV_DIR ''slim_gov_debug'' Hmbird_common_proc_ops Slim_gov_debug,
      entry_data_of SLIM_FREQ_GOV_DIR ''scx_gov_ctrl'' Hmbird_common_proc_ops Scx_gov_ctrl]"

text \<open>The entry created with \<open>HMBIRD_CREATE_PROC_ENTRY\<close>: the statistics file, with no
  data pointer and no write handler.\<close>

definition hmbird_stats_entry :: proc_entry where
  "hmbird_stats_entry =
     \<lparr>entry_dir = HMBIRD_SCHED_PROC_DIR, entry_name = ''hmbird_stats'',
      entry_ops = Hmbird_stats_proc_ops, entry_data = None\<rparr>"

definition hmbird_proc_entries :: "proc_entry list" where
  "hmbird_proc_entries = tunable_entries @ [hmbird_stats_entry]"

text \<open>A write to an entry: the handler its operation table names, called with the
  entry's data pointer as \<open>pval\<close>. \<open>None\<close> when the call gives no result of a handler:
  the table has no write handler, the data pointer is \<open>NULL\<close>, or \<open>save_gov_str\<close>
  dereferences \<open>NULL\<close>.\<close>

definition proc_write ::
  "kernel_env \<Rightarrow> proc_entry \<Rightarrow> string \<Rightarrow> nat \<Rightarrow> module_state \<Rightarrow> write_result option" where
  "proc_write env e ubuf count s =
     (case entry_ops e of
        Hmbird_stats_proc_ops \<Rightarrow> None
      | Save_gov_proc_ops \<Rightarrow> save_gov_str env ubuf count s
      | ops \<Rightarrow>
          (case entry_data e of
             None \<Rightarrow> None
           | Some pval \<Rightarrow>
               Some ((case ops of
                        Scx_enable_proc_ops \<Rightarrow> scx_enable_proc_write
                      | Sched_ravg_window_frame_per_sec_proc_ops \<Rightarrow>
                          sched_ravg_window_frame_per_sec_proc_write
                      | Cpu_cluster_masks_proc_ops \<Rightarrow> cpu_cluster_proc_write
                      | Slim_walt_ctrl_proc_ops \<Rightarrow> slim_walt_ctrl_write
                      | _ \<Rightarrow> hmbird_common_write) ubuf count pval s)))"

text \<open>A read of a tunable, \<open>hmbird_common_show\<close>: the \<open>int\<close> behind the data pointer.\<close>

definition hmbird_common_show :: "cell \<Rightarrow> module_state \<Rightarrow> s32" where
  "hmbird_common_show p s = mem s p"


section \<open>The statistics file: \<open>hmbird_stats_proc_show\<close>\<close>

text \<open>What is written to the \<open>seq_file\<close>: each \<open>seq_printf\<close> with its format and
  arguments, each \<open>seq_puts\<close> with its text, in order. A format is written without its
  final newline; an argument carries the conversion that prints it.\<close>

datatype seq_arg =
    Arg_d s32
  | Arg_u s32
  | Arg_lu u64
  | Arg_llu u64
  | Arg_lld u64

datatype seq_line = Seq_printf string "seq_arg list" | Seq_puts string

text \<open>The division of C: no result on a zero divisor.\<close>

definition c_div :: "u64 \<Rightarrow> u64 \<Rightarrow> u64 option" where
  "c_div a b = (if b = 0 then None else Some (a div b))"

text \<open>Lines 128 to 132: the two totals, in \<open>u64\<close>.\<close>

definition stats_totals :: "kernel_env \<Rightarrow> u64 \<times> u64" where
  "stats_totals env =
     fold (\<lambda>cpu (total_nr_running, total_nr_switches).
             (total_nr_running + nr_running (cpu_rq env cpu),
              total_nr_switches + nr_switches (cpu_rq env cpu)))
       (for_each_online_cpu env) (0, 0)"

text \<open>Lines 124, 134 and 135: \<open>avg_load_per_cpu\<close> starts at zero and is divided only
  under \<open>online_cpus > 0\<close>, the \<open>int\<close> divisor converted to \<open>u64\<close>.\<close>

definition avg_load_per_cpu :: "u64 \<Rightarrow> s32 \<Rightarrow> u64 option" where
  "avg_load_per_cpu total_nr_running online_cpus =
     (if 0 < sint online_cpus then c_div total_nr_running (scast online_cpus) else Some 0)"

text \<open>The guard of the four table loops: \<open>i < online_cpus && i < NR_CPUS\<close>.\<close>

definition in_table :: "kernel_env \<Rightarrow> s32 \<Rightarrow> nat \<Rightarrow> bool" where
  "in_table env online_cpus i \<longleftrightarrow> int i < sint online_cpus \<and> i < NR_CPUS env"

definition gdsq_cnt_line :: "kernel_env \<Rightarrow> s32 \<Rightarrow> nat \<Rightarrow> seq_line" where
  "gdsq_cnt_line env online_cpus i =
     (if in_table env online_cpus i then
        Seq_printf ''gdsq_cnt[%d]:%lu, %lu''
          [Arg_d (of_nat i), Arg_lu (nr_running (cpu_rq env i)),
           Arg_lu (nr_switches (cpu_rq env i) AND 0xFFFF)]
      else Seq_printf ''gdsq_cnt[%d]:0, 0'' [Arg_d (of_nat i)])"

definition pcp_timeout_cnt_line :: "kernel_env \<Rightarrow> s32 \<Rightarrow> u64 \<Rightarrow> nat \<Rightarrow> seq_line" where
  "pcp_timeout_cnt_line env online_cpus current_time i =
     (if in_table env online_cpus i then
        (let cpu_util = (if nr_running (cpu_rq env i) > 0 then current_time mod 1000 else 0)
         in Seq_printf ''pcp_timeout_cnt[%d]:%llu'' [Arg_d (of_nat i), Arg_llu cpu_util])
      else Seq_printf ''pcp_timeout_cnt[%d]:0'' [Arg_d (of_nat i)])"

definition pcp_ldsq_cnt_line :: "kernel_env \<Rightarrow> s32 \<Rightarrow> u64 \<Rightarrow> nat \<Rightarrow> seq_line" where
  "pcp_ldsq_cnt_line env online_cpus current_time i =
     (if in_table env online_cpus i then
        (let local_load = nr_running (cpu_rq env i);
             cpu_freq_ratio = drop_bit 10 current_time mod 100
         in Seq_printf ''pcp_ldsq_cnt[%d]:%llu, %llu''
              [Arg_d (of_nat i), Arg_llu local_load, Arg_llu cpu_freq_ratio])
      else Seq_printf ''pcp_ldsq_cnt[%d]:0, 0'' [Arg_d (of_nat i)])"

definition pcp_enql_cnt_line :: "kernel_env \<Rightarrow> s32 \<Rightarrow> nat \<Rightarrow> seq_line" where
  "pcp_enql_cnt_line env online_cpus i =
     (if in_table env online_cpus i then
        (let enqueue_activity = drop_bit 8 (nr_switches (cpu_rq env i)) AND 0xFF
         in Seq_printf ''pcp_enql_cnt[%d]:%llu'' [Arg_d (of_nat i), Arg_llu enqueue_activity])
      else Seq_printf ''pcp_enql_cnt[%d]:0'' [Arg_d (of_nat i)])"

text \<open>Lines 218 to 224: one line for each online processor below 8.\<close>

definition cpu_load_line :: "kernel_env \<Rightarrow> nat \<Rightarrow> seq_line" where
  "cpu_load_line env cpu =
     Seq_printf ''CPU[%d] Load: %lu, Switches: %lu''
       [Arg_d (of_nat cpu), Arg_lu (nr_running (cpu_rq env cpu)),
        Arg_lu (nr_switches (cpu_rq env cpu) AND 0xFFFFFF)]"

definition stats_lines :: "kernel_env \<Rightarrow> module_state \<Rightarrow> u64 \<Rightarrow> seq_line list" where
  "stats_lines env s avg =
     (let current_time = sched_clock env;
          online_cpus = num_online_cpus env;
          total_nr_running = fst (stats_totals env);
          total_nr_switches = snd (stats_totals env)
      in [Seq_printf ''global stat:%llu, %llu'' [Arg_llu total_nr_running, Arg_llu current_time],
          Seq_printf ''cpu_allow_fail:%d, %d'' [Arg_d 0, Arg_d online_cpus],
          Seq_printf ''rt_cnt:%llu, %llu'' [Arg_llu total_nr_switches, Arg_llu avg],
          Seq_puts ''key_task_cnt:0, 0'',
          Seq_puts ''switch_idx:0, 0'',
          Seq_puts ''timeout_cnt:0, 0'',
          Seq_puts ''total_dsp_cnt:0, 0'',
          Seq_puts ''move_rq_cnt:0, 0'',
          Seq_puts ''select_cpu:0, 0'']
         @ map (gdsq_cnt_line env online_cpus) [0..<10]
         @ [Seq_puts ''err_idx:0, 0, 0, 0, 0'']
         @ map (pcp_timeout_cnt_line env online_cpus current_time) [0..<8]
         @ map (pcp_ldsq_cnt_line env online_cpus current_time) [0..<8]
         @ map (pcp_enql_cnt_line env online_cpus) [0..<8]
         @ [Seq_printf ''SCX Enabled: %d'' [Arg_d (mem s Scx_enable)],
            Seq_printf ''Partial Enable: %d'' [Arg_d (mem s Partial_enable)],
            Seq_printf ''Slim Stats: %d'' [Arg_d (mem s Slim_stats)],
            Seq_printf ''Heartbeat: %d'' [Arg_d (mem s Heartbeat)],
            Seq_printf ''Misfit DS: %d'' [Arg_d (mem s Misfit_ds)],
            Seq_printf ''Highres Tick Ctrl: %u'' [Arg_u (mem s Highres_tick_ctrl)],
            Seq_printf ''Watchdog Enable: %d'' [Arg_d (mem s Watchdog_enable)],
            Seq_printf ''SCX Exit Type: %d'' [Arg_d (scx_exit_type env)],
            Seq_printf ''SCX Rejected Tasks: %lld'' [Arg_lld (scx_nr_rejected env)],
            Seq_printf ''Sched Ravg Window Frame Per Sec: %d''
              [Arg_d (mem s Sched_ravg_window_frame_per_sec)],
            Seq_printf ''Total Online CPUs: %d'' [Arg_d online_cpus],
            Seq_printf ''Total Running Tasks: %llu'' [Arg_llu total_nr_running],
            Seq_printf ''Average Load Per CPU: %llu'' [Arg_llu avg],
            Seq_printf ''Total Context Switches: %llu'' [Arg_llu total_nr_switches],
            Seq_printf ''System Uptime Ticks: %llu'' [Arg_llu (drop_bit 20 current_time)]]
         @ map (cpu_load_line env) (filter (\<lambda>cpu. cpu < 8) (for_each_online_cpu env))
         @ [Seq_printf ''CPU Control High Ratio: %d'' [Arg_d (mem s Cpuctrl_high_ratio)],
            Seq_printf ''CPU Control Low Ratio: %d'' [Arg_d (mem s Cpuctrl_low_ratio)],
            Seq_printf ''Isolation Control: %d'' [Arg_d (mem s Isolate_ctrl)],
            Seq_printf ''Governor Control: %d'' [Arg_d (mem s Scx_gov_ctrl)]])"

text \<open>The function: its return value, the module's variables afterwards (it assigns
  to none) and the lines written. \<open>None\<close> would be a division by zero.\<close>

definition hmbird_stats_proc_show ::
  "kernel_env \<Rightarrow> module_state \<Rightarrow> (int \<times> module_state \<times> seq_line list) option" where
  "hmbird_stats_proc_show env s =
     (case avg_load_per_cpu (fst (stats_totals env)) (num_online_cpus env) of
        None \<Rightarrow> None
      | Some avg \<Rightarrow> Some (0, s, stats_lines env s avg))"

section \<open>The module parameters\<close>

text \<open>The three \<open>module_param\<close> lines at the end of \<open>build_policy.c\<close>: the variable, its
  type, and the permission bits of its file under \<open>/sys/module\<close> (octal \<open>0644\<close>).\<close>

datatype module_variable = Policy_optimization_enabled | Int_variable cell
datatype param_type = Param_bool | Param_int

definition module_params :: "(module_variable \<times> param_type \<times> nat) list" where
  "module_params =
     [(Policy_optimization_enabled, Param_bool, 6 * 64 + 4 * 8 + 4),
      (Int_variable Cpu_performance_threshold, Param_int, 6 * 64 + 4 * 8 + 4),
      (Int_variable Load_balance_interval, Param_int, 6 * 64 + 4 * 8 + 4)]"





section \<open>The quantities the specification speaks of\<close>

text \<open>The number \<open>N\<close> of online processors, the queue length of a processor, and the
  total queue length: the sum of the queue lengths of the online processors, as
  natural numbers.\<close>

definition online_count :: "kernel_env \<Rightarrow> nat" where
  "online_count env = length (for_each_online_cpu env)"

definition queue_length :: "kernel_env \<Rightarrow> nat \<Rightarrow> nat" where
  "queue_length env cpu = unat (nr_running (cpu_rq env cpu))"

definition total_queue_length :: "kernel_env \<Rightarrow> nat" where
  "total_queue_length env = sum_list (map (queue_length env) (for_each_online_cpu env))"

text \<open>The total switch count: the sum of the context-switch counts of the online
  processors.\<close>

definition total_switch_count :: "kernel_env \<Rightarrow> nat" where
  "total_switch_count env =
     sum_list (map (\<lambda>cpu. unat (nr_switches (cpu_rq env cpu))) (for_each_online_cpu env))"

text \<open>The balance interval in the unit of the clock: milliseconds to nanoseconds.\<close>

definition interval_ns :: "module_state \<Rightarrow> nat" where
  "interval_ns s = nat (sint (load_balance_interval s)) * 1000000"


text \<open>The processors a run reports as overloaded, and the processors it signals.\<close>

fun overloaded_cpus :: "event list \<Rightarrow> nat list" where
  "overloaded_cpus [] = []"
| "overloaded_cpus (Printk_overloaded cpu n # out) = cpu # overloaded_cpus out"
| "overloaded_cpus (_ # out) = overloaded_cpus out"

fun signalled_cpus :: "event list \<Rightarrow> nat list" where
  "signalled_cpus [] = []"
| "signalled_cpus (Smp_call_function_single cpu # out) = cpu # signalled_cpus out"
| "signalled_cpus (_ # out) = signalled_cpus out"




text \<open>The lines a read of the statistics file gives.\<close>

definition stats_report :: "kernel_env \<Rightarrow> module_state \<Rightarrow> seq_line list option" where
  "stats_report env s =
     (case hmbird_stats_proc_show env s of None \<Rightarrow> None | Some (r, s', ls) \<Rightarrow> Some ls)"

text \<open>The format of a line, or its text.\<close>

definition line_format :: "seq_line \<Rightarrow> string" where
  "line_format l = (case l of Seq_printf f args \<Rightarrow> f | Seq_puts t \<Rightarrow> t)"

text \<open>The variables \<open>hmbird_stats_proc_show\<close> prints.\<close>

definition printed_cells :: "cell list" where
  "printed_cells =
     [Scx_enable, Partial_enable, Slim_stats, Heartbeat, Misfit_ds, Highres_tick_ctrl,
      Watchdog_enable, Sched_ravg_window_frame_per_sec, Cpuctrl_high_ratio,
      Cpuctrl_low_ratio, Isolate_ctrl, Scx_gov_ctrl]"






section \<open>Sample readings of the kernel\<close>

text \<open>Four processors, all online and present, each with \<open>n\<close> runnable tasks, read at
  time \<open>now\<close> from processor 0.\<close>

definition four_cpus :: "u64 \<Rightarrow> ulong \<Rightarrow> kernel_env" where
  "four_cpus now n =
     \<lparr>sched_clock = now, cpu_online_mask = [True, True, True, True],
      cpu_rq = (\<lambda>cpu. \<lparr>nr_running = n, nr_switches = 0\<rparr>),
      smp_processor_id = 0, scx_exit_type = 0, scx_nr_rejected = 0,
      cpu_present_mask = [True, True, True, True], cpufreq_cpu_get = (\<lambda>cpu. Some 0)\<rparr>"

text \<open>Three processors of which the second is offline, with different queue lengths
  and switch counts, read at one second from processor 0.\<close>

definition three_cpus :: kernel_env where
  "three_cpus =
     \<lparr>sched_clock = 1000000000, cpu_online_mask = [True, False, True],
      cpu_rq = (\<lambda>cpu. if cpu = 0 then \<lparr>nr_running = 3, nr_switches = 0x1030507\<rparr>
                     else if cpu = 1 then \<lparr>nr_running = 7, nr_switches = 9\<rparr>
                     else \<lparr>nr_running = 5, nr_switches = 70000\<rparr>),
      smp_processor_id = 0, scx_exit_type = 0, scx_nr_rejected = 0,
      cpu_present_mask = [True, True, True], cpufreq_cpu_get = (\<lambda>cpu. Some 0)\<rparr>"

text \<open>The same four processors, none of them online.\<close>

definition no_online_cpu :: kernel_env where
  "no_online_cpu = (four_cpus 1000000000 9)\<lparr>cpu_online_mask := [False, False, False, False]\<rparr>"

definition cpu7_tl_entry :: proc_entry where
  "cpu7_tl_entry = entry_data_of HMBIRD_SCHED_PROC_DIR ''cpu7_tl'' Hmbird_common_proc_ops Cpu7_tl"


section \<open>Machine arithmetic\<close>

lemma sint_of_nat32: "n < 2 ^ 31 \<Longrightarrow> sint (of_nat n :: 32 word) = int n"
  by (simp add: signed_of_nat signed_take_bit_int_eq_self)

lemma uint_of_int64: "uint (word_of_int k :: 64 word) = take_bit 64 k"
  by (simp add: uint_word_of_int_eq)

lemma uint_scast_32_64:
  assumes "0 \<le> sint (x :: 32 word)"
  shows "uint (scast x :: 64 word) = sint x"
proof -
  have "sint x < 2 ^ 31" using sint_lt [of x] by simp
  with assms have "take_bit 64 (sint x) = sint x"
    by (simp add: take_bit_int_eq_self)
  then show ?thesis by (simp only: scast_eq uint_of_int64)
qed

lemma unat_scast_32_64:
  "0 \<le> sint (x :: 32 word) \<Longrightarrow> unat (scast x :: 64 word) = nat (sint x)"
  using uint_scast_32_64 [of x] by (simp add: unat_eq_nat_uint)

lemma unat_scast_of_nat:
  "n < 2 ^ 31 \<Longrightarrow> unat (scast (of_nat n :: 32 word) :: 64 word) = n"
  by (simp add: unat_scast_32_64 sint_of_nat32)

lemma unat_scast_times:
  "n * k < 2 ^ 31 \<Longrightarrow> unat (scast ((of_nat n :: 32 word) * of_nat k) :: 64 word) = n * k"
  using unat_scast_of_nat [of "n * k"] by simp

lemma unat_of_nat64: "n < 2 ^ 64 \<Longrightarrow> unat (of_nat n :: 64 word) = n"
  by (simp add: unat_of_nat)



section \<open>The optimizer pass, summarised\<close>

lemma collect_step_simp:
  "collect_step env oc c (t, b, out) =
     (t + nr_running (cpu_rq env c),
      b \<or> cpu_overloaded oc (cpu_rq env c),
      out @ (if cpu_overloaded oc (cpu_rq env c)
             then [Printk_overloaded c (nr_running (cpu_rq env c))] else []))"
  by (simp add: collect_step_def Let_def)

lemma fold_collect_step:
  "fold (collect_step env oc) cs (t, b, out) =
     (t + of_nat (sum_list (map (queue_length env) cs)),
      b \<or> (\<exists>c \<in> set cs. cpu_overloaded oc (cpu_rq env c)),
      out @ map (\<lambda>c. Printk_overloaded c (nr_running (cpu_rq env c)))
              (filter (\<lambda>c. cpu_overloaded oc (cpu_rq env c)) cs))"
proof (induction cs arbitrary: t b out)
  case Nil
  then show ?case by simp
next
  case (Cons c cs)
  show ?case
    by (simp add: collect_step_simp Cons.IH queue_length_def add.assoc)
qed

lemma collect_load_eq:
  "collect_load env oc =
     (of_nat (total_queue_length env),
      (\<exists>c \<in> set (for_each_online_cpu env). cpu_overloaded oc (cpu_rq env c)),
      map (\<lambda>c. Printk_overloaded c (nr_running (cpu_rq env c)))
        (filter (\<lambda>c. cpu_overloaded oc (cpu_rq env c)) (for_each_online_cpu env)))"
  by (simp add: collect_load_def fold_collect_step total_queue_length_def)

lemma optimize_when_passed:
  assumes "\<not> rate_limited env s"
  shows "optimize_cpu_performance env s =
     (store Cpu_performance_threshold
        (adjust_threshold (of_nat (total_queue_length env)) (num_online_cpus env)
           (cpu_performance_threshold s))
        (s\<lparr>last_optimization_time := sched_clock env\<rparr>),
      map (\<lambda>c. Printk_overloaded c (nr_running (cpu_rq env c)))
        (filter (\<lambda>c. cpu_overloaded (num_online_cpus env) (cpu_rq env c))
           (for_each_online_cpu env)) @
      (if (\<exists>c \<in> set (for_each_online_cpu env).
             cpu_overloaded (num_online_cpus env) (cpu_rq env c)) \<and>
          policy_optimization_enabled s
       then Printk_triggering # kick_all_cpus env else []))"
  using assms by (simp add: optimize_cpu_performance_def Let_def collect_load_eq)

lemma optimize_when_limited:
  "rate_limited env s \<Longrightarrow> optimize_cpu_performance env s = (s, [])"
  by (simp add: optimize_cpu_performance_def)


lemma overloaded_cpus_append [simp]:
  "overloaded_cpus (xs @ ys) = overloaded_cpus xs @ overloaded_cpus ys"
  by (induction xs rule: overloaded_cpus.induct) simp_all

lemma signalled_cpus_append [simp]:
  "signalled_cpus (xs @ ys) = signalled_cpus xs @ signalled_cpus ys"
  by (induction xs rule: signalled_cpus.induct) simp_all

lemma overloaded_cpus_printk [simp]:
  "overloaded_cpus (map (\<lambda>c. Printk_overloaded c (f c)) cs) = cs"
  by (induction cs) simp_all

lemma signalled_cpus_printk [simp]:
  "signalled_cpus (map (\<lambda>c. Printk_overloaded c (f c)) cs) = []"
  by (induction cs) simp_all

lemma overloaded_cpus_kick [simp]: "overloaded_cpus (map Smp_call_function_single cs) = []"
  by (induction cs) simp_all

lemma signalled_cpus_kick [simp]: "signalled_cpus (map Smp_call_function_single cs) = cs"
  by (induction cs) simp_all

lemma distinct_for_each_online_cpu: "distinct (for_each_online_cpu env)"
  by (simp add: for_each_online_cpu_def)

lemma cpu_overloaded_nat:
  assumes "2 * n < 2 ^ 31"
  shows "cpu_overloaded (of_nat n) r \<longleftrightarrow> 2 * n < unat (nr_running r)"
proof -
  have "unat (scast ((of_nat n :: 32 word) * 2) :: 64 word) = 2 * n"
    using unat_scast_times [of n 2] assms by (simp add: mult.commute)
  then show ?thesis by (simp add: cpu_overloaded_def word_less_nat_alt)
qed

lemma signalled_cpus_exit:
  "signalled_cpus (snd (build_policy_exit exit_time env s)) = []"
proof (cases "rate_limited env (s\<lparr>policy_optimization_enabled := False\<rparr>)")
  case True
  then show ?thesis by (simp add: build_policy_exit_def optimize_when_limited)
next
  case False
  then show ?thesis by (simp add: build_policy_exit_def optimize_when_passed)
qed

lemma unat_interval_product:
  assumes "0 \<le> sint (i :: 32 word)"
  shows "unat ((scast i :: 64 word) * 1000000) = nat (sint i) * 1000000"
proof -
  have lt: "sint i < 2 ^ 31" using sint_lt [of i] by simp
  have u: "unat (scast i :: 64 word) = nat (sint i)"
    using assms by (rule unat_scast_32_64)
  have "nat (sint i) * 1000000 < 2 ^ 64" using assms lt by simp
  then have "unat (scast i :: 64 word) * unat (1000000 :: 64 word) < 2 ^ LENGTH(64)"
    by (simp add: u)
  then have "unat ((scast i :: 64 word) * 1000000) = unat (scast i :: 64 word) * unat (1000000 :: 64 word)"
    by (rule unat_mult_lem [THEN iffD1])
  then show ?thesis by (simp add: u)
qed



lemma optimize_passed_state:
  assumes "\<not> rate_limited env s"
  shows "last_optimization_time (fst (optimize_cpu_performance env s)) = sched_clock env"
    and "load_balance_interval (fst (optimize_cpu_performance env s)) = load_balance_interval s"
  using assms by (simp_all add: optimize_when_passed store_def)

section \<open>Writes to the tunables, summarised\<close>

lemma store_same [simp]: "store p (mem s p) s = s"
  by (simp add: store_def)

lemma mem_store: "mem (store p v s) q = (if q = p then v else mem s q)"
  by (simp add: store_def)

lemma kstrtoull_inner_error:
  "kstrtoull_inner str base = Inl e \<Longrightarrow> e = - EINVAL \<or> e = - ERANGE"
  by (auto simp add: kstrtoull_inner_def Let_def split: prod.splits if_splits)

lemma kstrtoll_error: "kstrtoll str base = Inl e \<Longrightarrow> e = - EINVAL \<or> e = - ERANGE"
  by (auto simp add: kstrtoll_def kstrtoull_def split: sum.splits if_splits
      dest: kstrtoull_inner_error)

lemma kstrtoint_cases:
  "(\<exists>v. kstrtoint str base res = (0, v))
   \<or> kstrtoint str base res = (- EINVAL, res) \<or> kstrtoint str base res = (- ERANGE, res)"
  by (auto simp add: kstrtoint_def split: sum.splits dest: kstrtoll_error)

lemma kstrtoint_failure:
  "fst (kstrtoint str base res) < 0 \<Longrightarrow> snd (kstrtoint str base res) = res"
  using kstrtoint_cases [of str base res] by auto


lemma set_proc_buf_val_cases:
  "set_proc_buf_val ubuf count p s =
     (if 5 \<le> count then (- EFAULT, s, [])
      else if length ubuf < count then (- EFAULT, s, [Pr_err_copy_from_user])
      else if fst (kstrtoint (strstrip (kbuf_string (take count ubuf))) 0 (mem s p)) < 0
        then (- EFAULT, s, [Pr_err_kstrtoint])
      else (0, store p (snd (kstrtoint (strstrip (kbuf_string (take count ubuf))) 0 (mem s p))) s,
            []))"
  by (simp add: set_proc_buf_val_def copy_from_user_def case_prod_beta kstrtoint_failure)

lemma hmbird_common_write_cases:
  "hmbird_common_write ubuf count p s =
     (if 5 \<le> count then (- EFAULT, s, [])
      else if length ubuf < count then (- EFAULT, s, [Pr_err_copy_from_user])
      else if fst (kstrtoint (strstrip (kbuf_string (take count ubuf))) 0 (mem s p)) < 0
        then (- EFAULT, s, [Pr_err_kstrtoint])
      else (int count,
            store p (snd (kstrtoint (strstrip (kbuf_string (take count ubuf))) 0 (mem s p))) s,
            []))"
  by (simp add: hmbird_common_write_def set_proc_buf_val_cases EFAULT_def)

lemma write_handlers_agree:
  "scx_enable_proc_write = hmbird_common_write"
  "sched_ravg_window_frame_per_sec_proc_write = hmbird_common_write"
  "cpu_cluster_proc_write = hmbird_common_write"
  "slim_walt_ctrl_write = hmbird_common_write"
  by (simp_all add: fun_eq_iff scx_enable_proc_write_def
      sched_ravg_window_frame_per_sec_proc_write_def cpu_cluster_proc_write_def
      slim_walt_ctrl_write_def hmbird_common_write_def)

lemma proc_write_parsed:
  assumes "e \<in> set tunable_entries" and "entry_ops e \<noteq> Save_gov_proc_ops"
  shows "\<exists>p. entry_data e = Some p \<and> p \<noteq> Cpu_performance_threshold
            \<and> p \<noteq> Load_balance_interval
            \<and> proc_write env e ubuf count s = Some (hmbird_common_write ubuf count p s)"
  using assms
  by (auto simp add: tunable_entries_def entry_data_of_def proc_write_def write_handlers_agree)

lemma proc_write_save_gov:
  assumes "entry_ops e = Save_gov_proc_ops"
  shows "proc_write env e ubuf count s = save_gov_str env ubuf count s"
  using assms by (simp add: proc_write_def)

lemma proc_write_mem:
  assumes "e \<in> set tunable_entries"
    and "proc_write env e ubuf count s = Some (r, s', out)"
  shows "cpu_performance_threshold s' = cpu_performance_threshold s"
proof (cases "entry_ops e = Save_gov_proc_ops")
  case True
  with assms(2) show ?thesis
    by (simp add: proc_write_save_gov save_gov_str_def split: if_splits)
next
  case False
  from proc_write_parsed [OF assms(1) False, of env ubuf count s] assms(2)
  show ?thesis
    by (auto simp add: hmbird_common_write_cases mem_store split: if_splits)
qed

section \<open>The threshold stays in its range\<close>








section \<open>Initialisation\<close>

lemma init_parameters_table:
  assumes "n < 2 ^ 31"
  shows "init_parameters (of_nat n) s =
     (if 8 \<le> n then store Load_balance_interval 50 (store Cpu_performance_threshold 85 s)
      else if 4 \<le> n then store Load_balance_interval 75 (store Cpu_performance_threshold 75 s)
      else store Load_balance_interval 100 (store Cpu_performance_threshold 70 s))"
  using assms by (simp add: init_parameters_def sint_of_nat32)

lemma rate_limited_from_zero:
  assumes "last_optimization_time s = 0" and "0 \<le> sint (load_balance_interval s)"
  shows "rate_limited env s \<longleftrightarrow> unat (sched_clock env) < interval_ns s"
  using assms
  by (simp add: rate_limited_def word_less_nat_alt unat_interval_product interval_ns_def)

section \<open>The statistics file, summarised\<close>

lemma fold_stats_totals:
  "fold (\<lambda>cpu (total_nr_running, total_nr_switches).
             (total_nr_running + nr_running (cpu_rq env cpu),
              total_nr_switches + nr_switches (cpu_rq env cpu))) cs (a, b) =
     (a + of_nat (sum_list (map (queue_length env) cs)),
      b + sum_list (map (\<lambda>cpu. nr_switches (cpu_rq env cpu)) cs))"
  by (induction cs arbitrary: a b) (simp_all add: queue_length_def add.assoc)

lemma stats_totals_running: "fst (stats_totals env) = of_nat (total_queue_length env)"
  by (simp add: stats_totals_def fold_stats_totals total_queue_length_def)

lemma avg_load_per_cpu_defined: "avg_load_per_cpu t oc \<noteq> None"
proof (cases "0 < sint oc")
  case True
  then have "unat (scast oc :: 64 word) = nat (sint oc)"
    by (intro unat_scast_32_64) simp
  with True have "(scast oc :: 64 word) \<noteq> 0"
    by (metis nat_0_iff not_le unat_0)
  with True show ?thesis by (simp add: avg_load_per_cpu_def c_div_def)
next
  case False
  then show ?thesis by (simp add: avg_load_per_cpu_def)
qed

lemma avg_load_per_cpu_nat:
  assumes "n < 2 ^ 31" and "T < 2 ^ 64"
  shows "avg_load_per_cpu (of_nat T) (of_nat n) =
     Some (of_nat (if 0 < n then T div n else 0))"
proof (cases "0 < n")
  case True
  have s: "sint (of_nat n :: 32 word) = int n"
    using assms(1) by (rule sint_of_nat32)
  have d: "unat (scast (of_nat n :: 32 word) :: 64 word) = n"
    using assms(1) by (rule unat_scast_of_nat)
  have t: "unat (of_nat T :: 64 word) = T"
    using assms(2) by (rule unat_of_nat64)
  have nz: "(scast (of_nat n :: 32 word) :: 64 word) \<noteq> 0"
    using d True by (metis less_numeral_extra(3) unat_0)
  have "unat ((of_nat T :: 64 word) div scast (of_nat n :: 32 word)) = T div n"
    by (simp add: unat_div d t)
  then have "(of_nat T :: 64 word) div scast (of_nat n :: 32 word) = of_nat (T div n)"
    by (metis of_nat_unat ucast_id)
  with True nz s show ?thesis by (simp add: avg_load_per_cpu_def c_div_def)
next
  case False
  then show ?thesis by (simp add: avg_load_per_cpu_def)
qed

lemma hmbird_stats_proc_show_eq:
  "hmbird_stats_proc_show env s =
     Some (0, s, stats_lines env s
       (the (avg_load_per_cpu (fst (stats_totals env)) (num_online_cpus env))))"
  using avg_load_per_cpu_defined [of "fst (stats_totals env)" "num_online_cpus env"]
  by (auto simp add: hmbird_stats_proc_show_def)

lemma stats_lines_store:
  "p \<notin> set printed_cells \<Longrightarrow> stats_lines env (store p v s) avg = stats_lines env s avg"
  by (auto simp add: stats_lines_def Let_def mem_store printed_cells_def)

lemma stats_report_store:
  "p \<notin> set printed_cells \<Longrightarrow> stats_report env (store p v s) = stats_report env s"
  by (simp add: stats_report_def hmbird_stats_proc_show_eq stats_lines_store)

lemma stats_report_defined: "stats_report env s \<noteq> None"
  by (simp add: stats_report_def hmbird_stats_proc_show_eq)

lemma cpu_lines_only:
  "filter (\<lambda>l. line_format l = ''CPU[%d] Load: %lu, Switches: %lu'') (stats_lines env s avg) =
     map (cpu_load_line env) (filter (\<lambda>cpu. cpu < 8) (for_each_online_cpu env))"
  by (simp add: stats_lines_def Let_def line_format_def filter_map o_def
      gdsq_cnt_line_def pcp_timeout_cnt_line_def pcp_ldsq_cnt_line_def pcp_enql_cnt_line_def
      cpu_load_line_def)

lemma at_most_eight: "length (filter (\<lambda>cpu. cpu < 8) (for_each_online_cpu env)) \<le> 8"
proof -
  let ?xs = "filter (\<lambda>cpu. cpu < 8) (for_each_online_cpu env)"
  have "distinct ?xs" by (simp add: distinct_for_each_online_cpu)
  then have "length ?xs = card (set ?xs)" by (rule distinct_card [symmetric])
  also have "\<dots> \<le> card {0..<8::nat}" by (intro card_mono) auto
  finally show ?thesis by simp
qed


lemma of_nat_sum_list_unat:
  "(of_nat (sum_list (map (\<lambda>c. unat (f c)) cs)) :: 64 word) = sum_list (map f cs)"
  by (induction cs) simp_all

lemma stats_totals_switches: "snd (stats_totals env) = of_nat (total_switch_count env)"
  by (simp add: stats_totals_def fold_stats_totals total_switch_count_def of_nat_sum_list_unat)

lemma online_count_le: "online_count env \<le> length (cpu_online_mask env)"
proof -
  have "length (for_each_online_cpu env) \<le> length [0..<length (cpu_online_mask env)]"
    unfolding for_each_online_cpu_def by (rule length_filter_le)
  then show ?thesis by (simp add: online_count_def)
qed

lemma in_table_nat:
  assumes "online_count env < 2 ^ 31"
  shows "in_table env (num_online_cpus env) i \<longleftrightarrow> i < online_count env"
proof -
  have "sint (num_online_cpus env) = int (online_count env)"
    unfolding num_online_cpus_def online_count_def [symmetric]
    using assms by (rule sint_of_nat32)
  then show ?thesis
    using online_count_le [of env] by (auto simp add: in_table_def NR_CPUS_def)
qed

lemma gdsq_cnt_line_in_report:
  "i < 10 \<Longrightarrow> gdsq_cnt_line env (num_online_cpus env) i \<in> set (stats_lines env s avg)"
  by (auto simp add: stats_lines_def Let_def simp del: upt_rec_numeral)

lemma tunable_entries_data:
  "e \<in> set tunable_entries \<Longrightarrow> entry_data e \<noteq> Some Cpu_performance_threshold"
  by (auto simp add: tunable_entries_def entry_data_of_def)

lemma cpu7_tl_entry_registered: "cpu7_tl_entry \<in> set tunable_entries"
  by (simp add: tunable_entries_def cpu7_tl_entry_def)


lemma proc_write_cpu7_tl:
  "proc_write env cpu7_tl_entry ubuf count s = Some (hmbird_common_write ubuf count Cpu7_tl s)"
  by (simp add: proc_write_def cpu7_tl_entry_def entry_data_of_def)

lemmas kstrtoint_eval =
  kstrtoint_def kstrtoll_def kstrtoull_def kstrtoull_inner_def parse_integer_fixup_radix_def
  char_at_def is_x_def isxdigit_def digit_val_def strstrip_def isspace_def kbuf_string_def
  EINVAL_def ERANGE_def

section \<open>Parsing decimal text\<close>


























section \<open>The sample readings, evaluated\<close>

lemma four_cpus_online: "for_each_online_cpu (four_cpus now n) = [0, 1, 2, 3]"
  by (simp add: for_each_online_cpu_def four_cpus_def)

lemma four_cpus_count: "online_count (four_cpus now n) = 4"
  by (simp add: online_count_def four_cpus_online)

lemma four_cpus_num: "num_online_cpus (four_cpus now n) = 4"
  by (simp add: num_online_cpus_def four_cpus_online)

lemma four_cpus_total: "total_queue_length (four_cpus now n) = 4 * unat n"
  unfolding total_queue_length_def four_cpus_online
  by (simp add: queue_length_def four_cpus_def)


lemma four_cpus_passes_initial: "\<not> rate_limited (four_cpus 1000000000 n) initial_state"
  by (simp add: rate_limited_def four_cpus_def initial_state_def initial_mem_def)

lemma four_cpus_queue: "queue_length (four_cpus now n) cpu = unat n"
  by (simp add: queue_length_def four_cpus_def)

lemma four_cpus_self: "smp_processor_id (four_cpus now n) = 0"
  by (simp add: four_cpus_def)

lemma four_cpus_clock: "sched_clock (four_cpus now n) = now"
  by (simp add: four_cpus_def)


lemma three_cpus_online: "for_each_online_cpu three_cpus = [0, 2]"
  by (simp add: for_each_online_cpu_def three_cpus_def)

lemma three_cpus_count: "online_count three_cpus = 2"
  by (simp add: online_count_def three_cpus_online)

lemma three_cpus_total: "total_queue_length three_cpus = 8"
  unfolding total_queue_length_def three_cpus_online
  by (simp add: queue_length_def three_cpus_def)

lemma three_cpus_switches: "total_switch_count three_cpus = 17045111"
  unfolding total_switch_count_def three_cpus_online
  by (simp add: three_cpus_def)

lemma three_cpus_rq:
  "cpu_rq three_cpus 0 = \<lparr>nr_running = 3, nr_switches = 0x1030507\<rparr>"
  "cpu_rq three_cpus 1 = \<lparr>nr_running = 7, nr_switches = 9\<rparr>"
  "cpu_rq three_cpus (Suc 0) = \<lparr>nr_running = 7, nr_switches = 9\<rparr>"
  "cpu_rq three_cpus 2 = \<lparr>nr_running = 5, nr_switches = 70000\<rparr>"
  by (simp_all add: three_cpus_def)




lemma no_online_cpu_online: "for_each_online_cpu no_online_cpu = []"
  by (simp add: for_each_online_cpu_def no_online_cpu_def four_cpus_def)

lemma no_online_cpu_count: "online_count no_online_cpu = 0"
  by (simp add: online_count_def no_online_cpu_online)

lemma no_online_cpu_total: "total_queue_length no_online_cpu = 0"
  by (simp add: total_queue_length_def no_online_cpu_online)

section \<open>The claims\<close>









text \<open>
  C3. In a pass that is not stopped by the gate, with \<open>N\<close> online processors: the
  processors reported as overloaded are exactly the online processors whose queue
  length exceeds \<open>2N\<close>; the processors signalled are every online processor other than
  the caller's when some processor is overloaded and the module is enabled, and none
  otherwise; no processor is signalled twice; and the final pass of
  \<open>build_policy_exit\<close>, which first clears the enabled flag, signals no processor.
\<close>

theorem C3_overload_and_fan_out:
  assumes gate: "\<not> rate_limited env s"
    and cpus: "2 * online_count env < 2 ^ 31"
  shows "overloaded_cpus (snd (optimize_cpu_performance env s)) =
           filter (\<lambda>cpu. 2 * online_count env < queue_length env cpu) (for_each_online_cpu env)
     \<and> signalled_cpus (snd (optimize_cpu_performance env s)) =
           (if (\<exists>cpu \<in> set (for_each_online_cpu env). 2 * online_count env < queue_length env cpu)
               \<and> policy_optimization_enabled s
            then filter (\<lambda>cpu. cpu \<noteq> smp_processor_id env) (for_each_online_cpu env)
            else [])
     \<and> distinct (signalled_cpus (snd (optimize_cpu_performance env s)))
     \<and> signalled_cpus (snd (build_policy_exit exit_time env s)) = []"
proof -
  have ov: "cpu_overloaded (num_online_cpus env) (cpu_rq env c) \<longleftrightarrow>
      2 * online_count env < queue_length env c" for c
    using cpu_overloaded_nat [OF cpus]
    by (simp add: num_online_cpus_def online_count_def queue_length_def)
  have flagged: "overloaded_cpus (snd (optimize_cpu_performance env s)) =
           filter (\<lambda>cpu. 2 * online_count env < queue_length env cpu) (for_each_online_cpu env)"
    using gate by (simp add: optimize_when_passed ov kick_all_cpus_def)
  have sig: "signalled_cpus (snd (optimize_cpu_performance env s)) =
           (if (\<exists>cpu \<in> set (for_each_online_cpu env). 2 * online_count env < queue_length env cpu)
               \<and> policy_optimization_enabled s
            then filter (\<lambda>cpu. cpu \<noteq> smp_processor_id env) (for_each_online_cpu env)
            else [])"
    using gate by (simp add: optimize_when_passed ov kick_all_cpus_def)
  have once: "distinct (signalled_cpus (snd (optimize_cpu_performance env s)))"
    unfolding sig by (simp add: distinct_for_each_online_cpu)
  from flagged sig once signalled_cpus_exit show ?thesis by blast
qed


text \<open>Four processors: nine tasks each (\<open>9 > 8\<close>) flags all four and signals the three
  others; eight tasks each (\<open>8 = 2N\<close>) flags none; at stop nobody is signalled.\<close>

theorem C3_overload_and_fan_out_witness:
  "overloaded_cpus (snd (optimize_cpu_performance (four_cpus 1000000000 9) initial_state))
     = [0, 1, 2, 3]
   \<and> signalled_cpus (snd (optimize_cpu_performance (four_cpus 1000000000 9) initial_state))
     = [1, 2, 3]
   \<and> overloaded_cpus (snd (optimize_cpu_performance (four_cpus 1000000000 8) initial_state))
     = []
   \<and> signalled_cpus (snd (optimize_cpu_performance (four_cpus 1000000000 8) initial_state))
     = []
   \<and> signalled_cpus (snd (build_policy_exit 1000000000 (four_cpus 1000000000 9) initial_state))
     = []"
  using C3_overload_and_fan_out [OF four_cpus_passes_initial, of 9 1000000000]
    C3_overload_and_fan_out [OF four_cpus_passes_initial, of 8 1000000000]
  by (auto simp add: four_cpus_count four_cpus_queue four_cpus_online four_cpus_self
      initial_state_def)





text \<open>
  C5, as amended. With \<open>N\<close> online processors and the time of the last pass at zero, a
  start whose notifier registration succeeds sets threshold and interval from the
  table (\<open>N \<ge> 8\<close>: 85 and 50; \<open>4 \<le> N < 8\<close>: 75 and 75; \<open>N < 4\<close>: 70 and 100) and then
  calls the optimizer once. That call passes the gate exactly when the clock reads at
  least the interval (in nanoseconds): before that it returns at once and the variables
  keep the table's values; otherwise it records the clock and runs the pass.
\<close>

theorem C5_initialisation:
  assumes cpus: "online_count env < 2 ^ 31"
    and zero: "last_optimization_time s = 0"
  shows "sint (cpu_performance_threshold (init_parameters (num_online_cpus env) s)) =
           (if 8 \<le> online_count env then 85 else if 4 \<le> online_count env then 75 else 70)
     \<and> sint (load_balance_interval (init_parameters (num_online_cpus env) s)) =
           (if 8 \<le> online_count env then 50 else if 4 \<le> online_count env then 75 else 100)
     \<and> fst (build_policy_init init_time 0 env s) = 0
     \<and> fst (snd (build_policy_init init_time 0 env s)) =
           fst (optimize_cpu_performance env (init_parameters (num_online_cpus env) s))
     \<and> (rate_limited env (init_parameters (num_online_cpus env) s) \<longleftrightarrow>
           unat (sched_clock env) < interval_ns (init_parameters (num_online_cpus env) s))
     \<and> (if unat (sched_clock env) < interval_ns (init_parameters (num_online_cpus env) s)
         then fst (snd (build_policy_init init_time 0 env s)) =
                init_parameters (num_online_cpus env) s
         else last_optimization_time (fst (snd (build_policy_init init_time 0 env s))) =
                sched_clock env)"
proof -
  let ?p = "init_parameters (num_online_cpus env) s"
  have p: "?p =
     (if 8 \<le> online_count env
        then store Load_balance_interval 50 (store Cpu_performance_threshold 85 s)
      else if 4 \<le> online_count env
        then store Load_balance_interval 75 (store Cpu_performance_threshold 75 s)
      else store Load_balance_interval 100 (store Cpu_performance_threshold 70 s))"
    unfolding num_online_cpus_def online_count_def [symmetric]
    using cpus by (rule init_parameters_table)
  have thr: "sint (cpu_performance_threshold ?p) =
           (if 8 \<le> online_count env then 85 else if 4 \<le> online_count env then 75 else 70)"
    by (simp add: p mem_store)
  have itv: "sint (load_balance_interval ?p) =
           (if 8 \<le> online_count env then 50 else if 4 \<le> online_count env then 75 else 100)"
    by (simp add: p mem_store)
  have z: "last_optimization_time ?p = 0"
    using zero by (simp add: p store_def)
  have gate: "rate_limited env ?p \<longleftrightarrow> unat (sched_clock env) < interval_ns ?p"
    using z by (rule rate_limited_from_zero) (simp add: itv)
  have run: "fst (snd (build_policy_init init_time 0 env s)) =
      fst (optimize_cpu_performance env ?p)"
    by (simp add: build_policy_init_def Let_def case_prod_beta)
  have ret: "fst (build_policy_init init_time 0 env s) = 0"
    by (simp add: build_policy_init_def Let_def case_prod_beta)
  have last: "if unat (sched_clock env) < interval_ns ?p
         then fst (snd (build_policy_init init_time 0 env s)) = ?p
         else last_optimization_time (fst (snd (build_policy_init init_time 0 env s))) =
                sched_clock env"
    unfolding run using gate
    by (simp add: optimize_when_limited optimize_passed_state)
  from thr itv ret run gate last show ?thesis by blast
qed


text \<open>Four processors, started one second after the clock's origin: 75 and 75, and the
  pass runs.\<close>

theorem C5_initialisation_witness:
  "sint (cpu_performance_threshold (init_parameters (num_online_cpus (four_cpus 1000000000 9))
       initial_state)) = 75
   \<and> sint (load_balance_interval (init_parameters (num_online_cpus (four_cpus 1000000000 9))
       initial_state)) = 75
   \<and> last_optimization_time
       (fst (snd (build_policy_init 5 0 (four_cpus 1000000000 9) initial_state))) = 1000000000"
proof -
  have c: "online_count (four_cpus 1000000000 9) < 2 ^ 31"
    by (simp add: four_cpus_count)
  have z: "last_optimization_time initial_state = 0"
    by (simp add: initial_state_def)
  have i: "interval_ns (init_parameters (num_online_cpus (four_cpus 1000000000 9))
      initial_state) = 75000000"
    by (simp add: four_cpus_num interval_ns_def init_parameters_def mem_store)
  note w = C5_initialisation [OF c z, of 5, unfolded i four_cpus_count four_cpus_clock,
      simplified]
  from w show ?thesis by blast
qed


text \<open>
  C5 as stated fails: a start 10 ms after the clock's origin, on four processors with
  nine tasks each, does not run the pass. The gate compares 10 ms with the interval of
  75 ms and returns: no processor is reported or signalled although each queue exceeds
  \<open>2N = 8\<close>, the threshold stays at the table's 75 although \<open>36 > 3N\<close>, and the time of
  the last pass stays zero.
\<close>

theorem C5_initialisation_counterexample:
  "last_optimization_time initial_state = 0
   \<and> build_policy_init 5 0 (four_cpus 10000000 9) initial_state =
       (0, store Load_balance_interval 75 (store Cpu_performance_threshold 75 initial_state),
        [Printk_loading, Printk_system_info 4 5, Register_cpu_notifier, Printk_loaded,
         Printk_parameters 75 75])
   \<and> queue_length (four_cpus 10000000 9) 0 = 9
   \<and> total_queue_length (four_cpus 10000000 9) = 36"
proof -
  have l0: "rate_limited (four_cpus 10000000 9) (init_parameters 4 initial_state)"
    by (simp add: rate_limited_def four_cpus_def init_parameters_def store_def
        initial_state_def initial_mem_def)
  have "build_policy_init 5 0 (four_cpus 10000000 9) initial_state =
       (0, init_parameters 4 initial_state,
        [Printk_loading, Printk_system_info 4 5, Register_cpu_notifier, Printk_loaded,
         Printk_parameters 75 75])"
    by (simp add: build_policy_init_def four_cpus_num optimize_when_limited [OF l0])
       (simp add: init_parameters_def mem_store)
  then show ?thesis
    by (simp add: init_parameters_def four_cpus_queue four_cpus_total)
       (simp add: initial_state_def)
qed


text \<open>
  C6, as amended. No entry of the \<open>/proc\<close> directory has the threshold as its data, and
  no write to a tunable changes it. The statistics file does not show it either: the
  lines a read gives are the same whatever the threshold is. The variable is declared
  a module parameter with permission \<open>0644\<close>.
\<close>

theorem C6_threshold_not_exposed:
  "(\<forall>e \<in> set tunable_entries.
      entry_data e \<noteq> Some Cpu_performance_threshold
      \<and> (\<forall>ubuf count r s' out. proc_write env e ubuf count s = Some (r, s', out) \<longrightarrow>
            cpu_performance_threshold s' = cpu_performance_threshold s))
   \<and> stats_report env (store Cpu_performance_threshold v s) = stats_report env s
   \<and> stats_report env s \<noteq> None
   \<and> (Int_variable Cpu_performance_threshold, Param_int, 6 * 64 + 4 * 8 + 4)
        \<in> set module_params"
proof -
  have "stats_report env (store Cpu_performance_threshold v s) = stats_report env s"
    by (rule stats_report_store) (simp add: printed_cells_def)
  moreover have "(Int_variable Cpu_performance_threshold, Param_int, 6 * 64 + 4 * 8 + 4)
        \<in> set module_params"
    by (simp add: module_params_def)
  ultimately show ?thesis
    using tunable_entries_data proc_write_mem stats_report_defined by blast
qed


text \<open>A write of \<open>90\<close> to \<open>cpu7_tl\<close> leaves the threshold alone, and the report with the
  threshold at 60 is the report with it at 80.\<close>

theorem C6_threshold_not_exposed_witness:
  "cpu7_tl_entry \<in> set tunable_entries
   \<and> proc_write (four_cpus 1000000000 9) cpu7_tl_entry ''90'' 2 initial_state =
       Some (2, store Cpu7_tl 90 initial_state, [])
   \<and> cpu_performance_threshold (store Cpu7_tl 90 initial_state) =
       cpu_performance_threshold initial_state
   \<and> stats_report (four_cpus 1000000000 9) (store Cpu_performance_threshold 60 initial_state) =
       stats_report (four_cpus 1000000000 9) initial_state"
proof -
  have w: "proc_write (four_cpus 1000000000 9) cpu7_tl_entry ''90'' 2 initial_state =
       Some (2, store Cpu7_tl 90 initial_state, [])"
    by (simp add: proc_write_cpu7_tl hmbird_common_write_cases kstrtoint_eval)
  from C6_threshold_not_exposed [of "four_cpus 1000000000 9" initial_state 60]
    cpu7_tl_entry_registered w
  show ?thesis by blast
qed


text \<open>
  C6 as stated fails: the statistics file does not expose the threshold. With the
  threshold at 50 and at 95 a read gives the same lines.
\<close>

theorem C6_threshold_not_exposed_counterexample:
  "cpu_performance_threshold (store Cpu_performance_threshold 50 initial_state) = 50
   \<and> cpu_performance_threshold (store Cpu_performance_threshold 95 initial_state) = 95
   \<and> stats_report (four_cpus 1000000000 9) (store Cpu_performance_threshold 50 initial_state) =
       stats_report (four_cpus 1000000000 9) (store Cpu_performance_threshold 95 initial_state)
   \<and> stats_report (four_cpus 1000000000 9) (store Cpu_performance_threshold 50 initial_state)
       \<noteq> None"
proof -
  have "Cpu_performance_threshold \<notin> set printed_cells"
    by (simp add: printed_cells_def)
  then show ?thesis
    by (simp add: stats_report_store stats_report_defined mem_store)
qed

text \<open>
  C7, as amended. With \<open>N\<close> online processors, a read of the statistics file returns 0,
  leaves every variable of the module as it was, and writes among its lines: the total
  queue length and the total switch count of the online processors (as \<open>u64\<close> sums),
  \<open>N\<close>, and the average \<open>total div N\<close> (0 when \<open>N = 0\<close>); for each index \<open>i\<close> below 10 a
  \<open>gdsq_cnt\<close> row, which for \<open>i < N\<close> holds the queue length of processor \<open>i\<close> and the
  low 16 bits of its switch count and otherwise zeros; for each online processor with
  a number below 8, and for no other, a load line with its queue length and the low 24
  bits of its switch count (so at most eight); and the current value of twelve of the
  named tunables. The lines do not depend on any other variable of the module. The
  premise keeps \<open>N\<close> within an \<open>int\<close>, and the average is stated for a total within a
  \<open>u64\<close>.
\<close>

theorem C7_stats_report:
  assumes cpus: "online_count env < 2 ^ 31"
  shows "\<exists>ls. hmbird_stats_proc_show env s = Some (0, s, ls)
     \<and> Seq_printf ''Total Running Tasks: %llu'' [Arg_llu (of_nat (total_queue_length env))]
          \<in> set ls
     \<and> Seq_printf ''Total Context Switches: %llu'' [Arg_llu (of_nat (total_switch_count env))]
          \<in> set ls
     \<and> Seq_printf ''Total Online CPUs: %d'' [Arg_d (of_nat (online_count env))] \<in> set ls
     \<and> (total_queue_length env < 2 ^ 64 \<longrightarrow>
          Seq_printf ''Average Load Per CPU: %llu''
            [Arg_llu (of_nat (if 0 < online_count env
                              then total_queue_length env div online_count env else 0))]
            \<in> set ls)
     \<and> (\<forall>i<10.
           (if i < online_count env
            then Seq_printf ''gdsq_cnt[%d]:%lu, %lu''
                   [Arg_d (of_nat i), Arg_lu (nr_running (cpu_rq env i)),
                    Arg_lu (nr_switches (cpu_rq env i) AND 0xFFFF)]
            else Seq_printf ''gdsq_cnt[%d]:0, 0'' [Arg_d (of_nat i)]) \<in> set ls)
     \<and> filter (\<lambda>l. line_format l = ''CPU[%d] Load: %lu, Switches: %lu'') ls =
        map (\<lambda>cpu. Seq_printf ''CPU[%d] Load: %lu, Switches: %lu''
                     [Arg_d (of_nat cpu), Arg_lu (nr_running (cpu_rq env cpu)),
                      Arg_lu (nr_switches (cpu_rq env cpu) AND 0xFFFFFF)])
          (filter (\<lambda>cpu. cpu < 8) (for_each_online_cpu env))
     \<and> length (filter (\<lambda>cpu. cpu < 8) (for_each_online_cpu env)) \<le> 8
     \<and> Seq_printf ''SCX Enabled: %d'' [Arg_d (mem s Scx_enable)] \<in> set ls
     \<and> Seq_printf ''Partial Enable: %d'' [Arg_d (mem s Partial_enable)] \<in> set ls
     \<and> Seq_printf ''Slim Stats: %d'' [Arg_d (mem s Slim_stats)] \<in> set ls
     \<and> Seq_printf ''Heartbeat: %d'' [Arg_d (mem s Heartbeat)] \<in> set ls
     \<and> Seq_printf ''Misfit DS: %d'' [Arg_d (mem s Misfit_ds)] \<in> set ls
     \<and> Seq_printf ''Highres Tick Ctrl: %u'' [Arg_u (mem s Highres_tick_ctrl)] \<in> set ls
     \<and> Seq_printf ''Watchdog Enable: %d'' [Arg_d (mem s Watchdog_enable)] \<in> set ls
     \<and> Seq_printf ''Sched Ravg Window Frame Per Sec: %d''
          [Arg_d (mem s Sched_ravg_window_frame_per_sec)] \<in> set ls
     \<and> Seq_printf ''CPU Control High Ratio: %d'' [Arg_d (mem s Cpuctrl_high_ratio)] \<in> set ls
     \<and> Seq_printf ''CPU Control Low Ratio: %d'' [Arg_d (mem s Cpuctrl_low_ratio)] \<in> set ls
     \<and> Seq_printf ''Isolation Control: %d'' [Arg_d (mem s Isolate_ctrl)] \<in> set ls
     \<and> Seq_printf ''Governor Control: %d'' [Arg_d (mem s Scx_gov_ctrl)] \<in> set ls
     \<and> (\<forall>p v. p \<notin> set printed_cells \<longrightarrow> stats_report env (store p v s) = Some ls)"
proof -
  let ?avg = "the (avg_load_per_cpu (fst (stats_totals env)) (num_online_cpus env))"
  let ?ls = "stats_lines env s ?avg"
  have num: "num_online_cpus env = of_nat (online_count env)"
    by (simp add: num_online_cpus_def online_count_def)
  have ret: "hmbird_stats_proc_show env s = Some (0, s, ?ls)"
    by (rule hmbird_stats_proc_show_eq)
  have totals: "Seq_printf ''Total Running Tasks: %llu''
        [Arg_llu (of_nat (total_queue_length env))] \<in> set ?ls"
    "Seq_printf ''Total Context Switches: %llu''
        [Arg_llu (of_nat (total_switch_count env))] \<in> set ?ls"
    "Seq_printf ''Total Online CPUs: %d'' [Arg_d (of_nat (online_count env))] \<in> set ?ls"
    unfolding stats_totals_running [symmetric] stats_totals_switches [symmetric] num [symmetric]
    by (simp_all add: stats_lines_def Let_def)
  have avg: "Seq_printf ''Average Load Per CPU: %llu''
            [Arg_llu (of_nat (if 0 < online_count env
                              then total_queue_length env div online_count env else 0))]
            \<in> set ?ls"
    if "total_queue_length env < 2 ^ 64"
  proof -
    have "?avg = of_nat (if 0 < online_count env
                         then total_queue_length env div online_count env else 0)"
      unfolding stats_totals_running num
      by (simp only: avg_load_per_cpu_nat [OF cpus that] option.sel)
    moreover have "Seq_printf ''Average Load Per CPU: %llu'' [Arg_llu ?avg] \<in> set ?ls"
      by (simp add: stats_lines_def Let_def)
    ultimately show ?thesis by simp
  qed
  have gdsq: "(if i < online_count env
            then Seq_printf ''gdsq_cnt[%d]:%lu, %lu''
                   [Arg_d (of_nat i), Arg_lu (nr_running (cpu_rq env i)),
                    Arg_lu (nr_switches (cpu_rq env i) AND 0xFFFF)]
            else Seq_printf ''gdsq_cnt[%d]:0, 0'' [Arg_d (of_nat i)]) \<in> set ?ls"
    if "i < 10" for i
    using gdsq_cnt_line_in_report [OF that, of env s ?avg]
    by (simp add: gdsq_cnt_line_def in_table_nat [OF cpus])
  have loads: "filter (\<lambda>l. line_format l = ''CPU[%d] Load: %lu, Switches: %lu'') ?ls =
        map (\<lambda>cpu. Seq_printf ''CPU[%d] Load: %lu, Switches: %lu''
                     [Arg_d (of_nat cpu), Arg_lu (nr_running (cpu_rq env cpu)),
                      Arg_lu (nr_switches (cpu_rq env cpu) AND 0xFFFFFF)])
          (filter (\<lambda>cpu. cpu < 8) (for_each_online_cpu env))"
    unfolding cpu_lines_only by (simp add: cpu_load_line_def)
  have tunables: "Seq_printf ''SCX Enabled: %d'' [Arg_d (mem s Scx_enable)] \<in> set ?ls"
    "Seq_printf ''Partial Enable: %d'' [Arg_d (mem s Partial_enable)] \<in> set ?ls"
    "Seq_printf ''Slim Stats: %d'' [Arg_d (mem s Slim_stats)] \<in> set ?ls"
    "Seq_printf ''Heartbeat: %d'' [Arg_d (mem s Heartbeat)] \<in> set ?ls"
    "Seq_printf ''Misfit DS: %d'' [Arg_d (mem s Misfit_ds)] \<in> set ?ls"
    "Seq_printf ''Highres Tick Ctrl: %u'' [Arg_u (mem s Highres_tick_ctrl)] \<in> set ?ls"
    "Seq_printf ''Watchdog Enable: %d'' [Arg_d (mem s Watchdog_enable)] \<in> set ?ls"
    "Seq_printf ''Sched Ravg Window Frame Per Sec: %d''
          [Arg_d (mem s Sched_ravg_window_frame_per_sec)] \<in> set ?ls"
    "Seq_printf ''CPU Control High Ratio: %d'' [Arg_d (mem s Cpuctrl_high_ratio)] \<in> set ?ls"
    "Seq_printf ''CPU Control Low Ratio: %d'' [Arg_d (mem s Cpuctrl_low_ratio)] \<in> set ?ls"
    "Seq_printf ''Isolation Control: %d'' [Arg_d (mem s Isolate_ctrl)] \<in> set ?ls"
    "Seq_printf ''Governor Control: %d'' [Arg_d (mem s Scx_gov_ctrl)] \<in> set ?ls"
    by (simp_all add: stats_lines_def Let_def)
  have others: "stats_report env (store p v s) = Some ?ls" if "p \<notin> set printed_cells" for p v
    using that by (simp add: stats_report_store) (simp add: stats_report_def ret)
  show ?thesis
    apply (rule exI [of _ ?ls])
    apply (intro conjI allI impI)
    apply (rule ret totals avg gdsq loads at_most_eight tunables others, assumption?)+
    done
qed

text \<open>Three processors with the second offline: the totals 8 and 17045111 over the two
  online ones, the average 4; a row for index 1, below the count of 2, with the figures
  of processor 1, and a zero row for index 2; load lines for processors 0 and 2 only;
  and one of the tunables.\<close>

theorem C7_stats_report_witness:
  "fst (the (hmbird_stats_proc_show three_cpus initial_state)) = 0
   \<and> fst (snd (the (hmbird_stats_proc_show three_cpus initial_state))) = initial_state
   \<and> Seq_printf ''Total Running Tasks: %llu'' [Arg_llu 8]
       \<in> set (the (stats_report three_cpus initial_state))
   \<and> Seq_printf ''Total Context Switches: %llu'' [Arg_llu 17045111]
       \<in> set (the (stats_report three_cpus initial_state))
   \<and> Seq_printf ''Total Online CPUs: %d'' [Arg_d 2]
       \<in> set (the (stats_report three_cpus initial_state))
   \<and> Seq_printf ''Average Load Per CPU: %llu'' [Arg_llu 4]
       \<in> set (the (stats_report three_cpus initial_state))
   \<and> Seq_printf ''gdsq_cnt[%d]:%lu, %lu'' [Arg_d 0, Arg_lu 3, Arg_lu 1287]
       \<in> set (the (stats_report three_cpus initial_state))
   \<and> Seq_printf ''gdsq_cnt[%d]:%lu, %lu'' [Arg_d 1, Arg_lu 7, Arg_lu 9]
       \<in> set (the (stats_report three_cpus initial_state))
   \<and> Seq_printf ''gdsq_cnt[%d]:0, 0'' [Arg_d 2]
       \<in> set (the (stats_report three_cpus initial_state))
   \<and> filter (\<lambda>l. line_format l = ''CPU[%d] Load: %lu, Switches: %lu'')
        (the (stats_report three_cpus initial_state)) =
      [Seq_printf ''CPU[%d] Load: %lu, Switches: %lu'' [Arg_d 0, Arg_lu 3, Arg_lu 197895],
       Seq_printf ''CPU[%d] Load: %lu, Switches: %lu'' [Arg_d 2, Arg_lu 5, Arg_lu 70000]]
   \<and> Seq_printf ''CPU Control High Ratio: %d'' [Arg_d 55]
       \<in> set (the (stats_report three_cpus initial_state))"
proof -
  have c: "online_count three_cpus < 2 ^ 31" by (simp add: three_cpus_count)
  from C7_stats_report [OF c, of initial_state]
  obtain ls where
    ret: "hmbird_stats_proc_show three_cpus initial_state = Some (0, initial_state, ls)"
    and run: "Seq_printf ''Total Running Tasks: %llu''
          [Arg_llu (of_nat (total_queue_length three_cpus))] \<in> set ls"
    and sw: "Seq_printf ''Total Context Switches: %llu''
          [Arg_llu (of_nat (total_switch_count three_cpus))] \<in> set ls"
    and cnt: "Seq_printf ''Total Online CPUs: %d'' [Arg_d (of_nat (online_count three_cpus))]
          \<in> set ls"
    and avg: "total_queue_length three_cpus < 2 ^ 64 \<longrightarrow>
          Seq_printf ''Average Load Per CPU: %llu''
            [Arg_llu (of_nat (if 0 < online_count three_cpus
                then total_queue_length three_cpus div online_count three_cpus else 0))]
            \<in> set ls"
    and rows: "\<forall>i<10.
           (if i < online_count three_cpus
            then Seq_printf ''gdsq_cnt[%d]:%lu, %lu''
                   [Arg_d (of_nat i), Arg_lu (nr_running (cpu_rq three_cpus i)),
                    Arg_lu (nr_switches (cpu_rq three_cpus i) AND 0xFFFF)]
            else Seq_printf ''gdsq_cnt[%d]:0, 0'' [Arg_d (of_nat i)]) \<in> set ls"
    and loads: "filter (\<lambda>l. line_format l = ''CPU[%d] Load: %lu, Switches: %lu'') ls =
        map (\<lambda>cpu. Seq_printf ''CPU[%d] Load: %lu, Switches: %lu''
                     [Arg_d (of_nat cpu), Arg_lu (nr_running (cpu_rq three_cpus cpu)),
                      Arg_lu (nr_switches (cpu_rq three_cpus cpu) AND 0xFFFFFF)])
          (filter (\<lambda>cpu. cpu < 8) (for_each_online_cpu three_cpus))"
    and high: "Seq_printf ''CPU Control High Ratio: %d''
          [Arg_d (mem initial_state Cpuctrl_high_ratio)] \<in> set ls"
    by blast
  have rep: "stats_report three_cpus initial_state = Some ls"
    by (simp add: stats_report_def ret)
  have m: "mem initial_state Cpuctrl_high_ratio = 55"
    by (simp add: initial_state_def initial_mem_def)
  have r0: "Seq_printf ''gdsq_cnt[%d]:%lu, %lu'' [Arg_d 0, Arg_lu 3, Arg_lu 1287] \<in> set ls"
    and r1: "Seq_printf ''gdsq_cnt[%d]:%lu, %lu'' [Arg_d 1, Arg_lu 7, Arg_lu 9] \<in> set ls"
    and r2: "Seq_printf ''gdsq_cnt[%d]:0, 0'' [Arg_d 2] \<in> set ls"
    using rows [rule_format, of 0] rows [rule_format, of 1] rows [rule_format, of 2]
    by (simp_all add: three_cpus_count three_cpus_rq)
  have l: "filter (\<lambda>l. line_format l = ''CPU[%d] Load: %lu, Switches: %lu'') ls =
      [Seq_printf ''CPU[%d] Load: %lu, Switches: %lu'' [Arg_d 0, Arg_lu 3, Arg_lu 197895],
       Seq_printf ''CPU[%d] Load: %lu, Switches: %lu'' [Arg_d 2, Arg_lu 5, Arg_lu 70000]]"
    unfolding loads three_cpus_online by (simp add: three_cpus_rq)
  from run sw cnt avg high
  have t: "Seq_printf ''Total Running Tasks: %llu'' [Arg_llu 8] \<in> set ls"
    "Seq_printf ''Total Context Switches: %llu'' [Arg_llu 17045111] \<in> set ls"
    "Seq_printf ''Total Online CPUs: %d'' [Arg_d 2] \<in> set ls"
    "Seq_printf ''Average Load Per CPU: %llu'' [Arg_llu 4] \<in> set ls"
    "Seq_printf ''CPU Control High Ratio: %d'' [Arg_d 55] \<in> set ls"
    by (simp_all add: three_cpus_count three_cpus_total three_cpus_switches m)
  from t r0 r1 r2 l show ?thesis
    by (simp add: ret rep)
qed

text \<open>
  C7 as stated fails: \<open>cpu7_tl\<close> is a named tunable of the directory, a read of its own
  file shows 70 and then 71, and the statistics file gives the same lines for both.
\<close>

theorem C7_stats_report_counterexample:
  "cpu7_tl_entry \<in> set tunable_entries
   \<and> entry_data cpu7_tl_entry = Some Cpu7_tl
   \<and> hmbird_common_show Cpu7_tl initial_state = 70
   \<and> hmbird_common_show Cpu7_tl (store Cpu7_tl 71 initial_state) = 71
   \<and> stats_report (four_cpus 1000000000 9) (store Cpu7_tl 71 initial_state) =
       stats_report (four_cpus 1000000000 9) initial_state
   \<and> stats_report (four_cpus 1000000000 9) initial_state \<noteq> None"
proof -
  have "Cpu7_tl \<notin> set printed_cells"
    by (simp add: printed_cells_def)
  then show ?thesis
    by (simp add: stats_report_store stats_report_defined mem_store hmbird_common_show_def
        cpu7_tl_entry_registered)
      (simp add: cpu7_tl_entry_def entry_data_of_def initial_state_def initial_mem_def)
qed








text \<open>
  C9. The average of the statistics file is the total queue length divided by the
  number of online processors when that number is positive, and zero when it is zero.
  The division is never reached with a zero divisor: the average is defined for every
  total and every count, and so is the report.
\<close>

theorem C9_average_load:
  "hmbird_stats_proc_show env s \<noteq> None
   \<and> avg_load_per_cpu t online_cpus \<noteq> None
   \<and> (online_count env < 2 ^ 31 \<and> total_queue_length env < 2 ^ 64 \<longrightarrow>
        hmbird_stats_proc_show env s =
          Some (0, s, stats_lines env s
                  (of_nat (if 0 < online_count env
                           then total_queue_length env div online_count env else 0)))
        \<and> Seq_printf ''Average Load Per CPU: %llu''
             [Arg_llu (of_nat (if 0 < online_count env
                               then total_queue_length env div online_count env else 0))]
            \<in> set (stats_lines env s
                  (of_nat (if 0 < online_count env
                           then total_queue_length env div online_count env else 0))))"
proof -
  have a: "hmbird_stats_proc_show env s \<noteq> None"
    using avg_load_per_cpu_defined [of "fst (stats_totals env)" "num_online_cpus env"]
    by (auto simp add: hmbird_stats_proc_show_def)
  have b: "avg_load_per_cpu t online_cpus \<noteq> None"
    by (rule avg_load_per_cpu_defined)
  have c: "hmbird_stats_proc_show env s =
          Some (0, s, stats_lines env s
                  (of_nat (if 0 < online_count env
                           then total_queue_length env div online_count env else 0)))"
    if "online_count env < 2 ^ 31" and "total_queue_length env < 2 ^ 64"
    using avg_load_per_cpu_nat [OF that]
    by (simp add: hmbird_stats_proc_show_def stats_totals_running num_online_cpus_def
        online_count_def)
  have d: "Seq_printf ''Average Load Per CPU: %llu'' [Arg_llu avg] \<in> set (stats_lines env s avg)"
    for avg
    by (simp add: stats_lines_def Let_def)
  from a b c d show ?thesis by blast
qed



text \<open>Four processors with nine tasks each give 9; no online processor gives 0.\<close>

theorem C9_average_load_witness:
  "hmbird_stats_proc_show (four_cpus 1000000000 9) initial_state =
     Some (0, initial_state, stats_lines (four_cpus 1000000000 9) initial_state 9)
   \<and> Seq_printf ''Average Load Per CPU: %llu'' [Arg_llu 9]
       \<in> set (stats_lines (four_cpus 1000000000 9) initial_state 9)
   \<and> hmbird_stats_proc_show no_online_cpu initial_state =
     Some (0, initial_state, stats_lines no_online_cpu initial_state 0)
   \<and> Seq_printf ''Average Load Per CPU: %llu'' [Arg_llu 0]
       \<in> set (stats_lines no_online_cpu initial_state 0)"
  using C9_average_load [of "four_cpus 1000000000 9" initial_state 36 4]
    C9_average_load [of no_online_cpu initial_state 0 0]
  by (simp add: four_cpus_count four_cpus_total no_online_cpu_count no_online_cpu_total)

text \<open>
  C10. A write to a named tunable that returns returns either \<open>-EFAULT\<close>, leaving every
  variable as it was, or the byte count it was given. For every tunable but
  \<open>save_gov\<close> (whose handler always returns the count) the three causes of failure, a
  count of five or more, a buffer that cannot be read, and text \<open>kstrtoint\<close> rejects,
  all give \<open>-EFAULT\<close>; anything else stores the parsed value and returns the count.
\<close>

theorem C10_write_results:
  assumes "e \<in> set tunable_entries"
  shows "(\<forall>r s' out. proc_write env e ubuf count s = Some (r, s', out) \<longrightarrow>
            (r = - EFAULT \<and> s' = s) \<or> (r = int count))
     \<and> (entry_ops e \<noteq> Save_gov_proc_ops \<longrightarrow>
          (\<exists>p. entry_data e = Some p
             \<and> proc_write env e ubuf count s =
                 Some (if 5 \<le> count then (- EFAULT, s, [])
                       else if length ubuf < count then (- EFAULT, s, [Pr_err_copy_from_user])
                       else if fst (kstrtoint (strstrip (kbuf_string (take count ubuf))) 0
                                     (mem s p)) < 0
                         then (- EFAULT, s, [Pr_err_kstrtoint])
                       else (int count,
                             store p (snd (kstrtoint (strstrip (kbuf_string (take count ubuf)))
                                            0 (mem s p))) s,
                             []))))"
proof (cases "entry_ops e = Save_gov_proc_ops")
  case True
  then show ?thesis
    by (auto simp add: proc_write_save_gov save_gov_str_def split: if_splits)
next
  case False
  from proc_write_parsed [OF assms False, of env ubuf count s]
  obtain p where p: "entry_data e = Some p"
    and w: "proc_write env e ubuf count s = Some (hmbird_common_write ubuf count p s)"
    by blast
  have "(r = - EFAULT \<and> s' = s) \<or> r = int count"
    if "proc_write env e ubuf count s = Some (r, s', out)" for r s' out
    using that unfolding w hmbird_common_write_cases by (auto split: if_splits)
  moreover have "proc_write env e ubuf count s =
                 Some (if 5 \<le> count then (- EFAULT, s, [])
                       else if length ubuf < count then (- EFAULT, s, [Pr_err_copy_from_user])
                       else if fst (kstrtoint (strstrip (kbuf_string (take count ubuf))) 0
                                     (mem s p)) < 0
                         then (- EFAULT, s, [Pr_err_kstrtoint])
                       else (int count,
                             store p (snd (kstrtoint (strstrip (kbuf_string (take count ubuf)))
                                            0 (mem s p))) s,
                             []))"
    unfolding w by (rule arg_cong [OF hmbird_common_write_cases])
  ultimately show ?thesis using p by blast
qed


text \<open>Four writes to \<open>cpu7_tl\<close>: five bytes, a buffer one byte short, the text \<open>abc\<close>, and
  the text \<open>12\<close>.\<close>

theorem C10_write_results_witness:
  "proc_write (four_cpus 1000000000 9) cpu7_tl_entry ''12345'' 5 initial_state =
     Some (- EFAULT, initial_state, [])
   \<and> proc_write (four_cpus 1000000000 9) cpu7_tl_entry ''12'' 3 initial_state =
     Some (- EFAULT, initial_state, [Pr_err_copy_from_user])
   \<and> proc_write (four_cpus 1000000000 9) cpu7_tl_entry ''abc'' 3 initial_state =
     Some (- EFAULT, initial_state, [Pr_err_kstrtoint])
   \<and> proc_write (four_cpus 1000000000 9) cpu7_tl_entry ''12'' 2 initial_state =
     Some (2, store Cpu7_tl 12 initial_state, [])"
proof -
  have ops: "entry_ops cpu7_tl_entry \<noteq> Save_gov_proc_ops"
    and dat: "entry_data cpu7_tl_entry = Some Cpu7_tl"
    by (simp_all add: cpu7_tl_entry_def entry_data_of_def)
  note w = C10_write_results [OF cpu7_tl_entry_registered, THEN conjunct2, rule_format, OF ops,
      unfolded dat, simplified]
  show ?thesis
    by (simp add: w kstrtoint_eval)
qed

end
